theory Spec2Isabelle
  imports Complex_Main
begin

section \<open>The search backend of app.py\<close>

text \<open>
  The development embeds the dispatch, cache and normalisation logic of \<^verbatim>\<open>src/app.py\<close>:
  \<^verbatim>\<open>get_from_cache\<close>, \<^verbatim>\<open>save_to_cache\<close>, the three provider adapters
  \<^verbatim>\<open>search_free_api\<close>, \<^verbatim>\<open>search_google_api\<close>, \<^verbatim>\<open>search_baidu_api\<close>, the mock generator
  \<^verbatim>\<open>search_fallback\<close>, the dispatcher \<^verbatim>\<open>perform_search\<close> and the request handler
  \<^verbatim>\<open>api_search_endpoint\<close>.

  Everything the Python reads from outside is a parameter: the sidebar settings and the
  environment variables are a record \<open>config\<close>; the network, the clock and the calendar
  are a record \<open>world\<close>. The session cache is passed in and returned. Every outbound HTTP
  call and every cache access is written to a list of events that the functions return,
  so that what a call did to the outside is part of its result.
\<close>

subsection \<open>JSON values and the Python operations applied to them\<close>

text \<open>
  A provider's reply body is whatever \<^verbatim>\<open>response.json()\<close> parses, so the adapters work on
  untyped JSON. A number written without fraction or exponent parses to a Python int
  (\<open>JNum\<close>), any other number to a float (\<open>JFrac\<close>, with its value).
\<close>

datatype json =
    JNull
  | JBool bool
  | JNum int
  | JFrac real
  | JStr string
  | JArr "json list"
  | JObj "(string \<times> json) list"

text \<open>Python's truth value of an object (\<^verbatim>\<open>if x:\<close>).\<close>

fun py_truthy :: "json \<Rightarrow> bool" where
  "py_truthy JNull = False"
| "py_truthy (JBool b) = b"
| "py_truthy (JNum n) = (n \<noteq> 0)"
| "py_truthy (JFrac v) = (v \<noteq> 0)"
| "py_truthy (JStr s) = (s \<noteq> [])"
| "py_truthy (JArr xs) = (xs \<noteq> [])"
| "py_truthy (JObj kvs) = (kvs \<noteq> [])"

text \<open>
  \<^verbatim>\<open>d.get(k, default)\<close> on a dict, given as the list of its items, each key once.
\<close>

definition dict_get :: "(string \<times> json) list \<Rightarrow> string \<Rightarrow> json \<Rightarrow> json" where
  "dict_get kvs k dflt = (case map_of kvs k of None \<Rightarrow> dflt | Some v \<Rightarrow> v)"

text \<open>\<^verbatim>\<open>sub in s\<close> on two strings: \<open>sub\<close> occurs in \<open>s\<close> as a contiguous run.\<close>

fun str_contains :: "string \<Rightarrow> string \<Rightarrow> bool" where
  "str_contains sub [] = (sub = [])"
| "str_contains sub (c # cs) = (take (length sub) (c # cs) = sub \<or> str_contains sub cs)"

text \<open>
  \<^verbatim>\<open>k in x\<close> for a string \<open>k\<close>: key membership on a dict, element membership on a list,
  substring on a string; on \<^verbatim>\<open>None\<close>, a bool or a number Python raises TypeError, which
  is \<open>None\<close> here.
\<close>

fun py_in :: "string \<Rightarrow> json \<Rightarrow> bool option" where
  "py_in k (JObj kvs) = Some (k \<in> set (map fst kvs))"
| "py_in k (JArr xs) = Some (JStr k \<in> set xs)"
| "py_in k (JStr s) = Some (str_contains k s)"
| "py_in k JNull = None"
| "py_in k (JBool b) = None"
| "py_in k (JNum n) = None"
| "py_in k (JFrac v) = None"

text \<open>
  The slice \<^verbatim>\<open>xs[:n]\<close>. A negative bound counts from the end: \<^verbatim>\<open>xs[:-1]\<close> drops the
  last element.
\<close>

definition py_slice_to :: "'a list \<Rightarrow> int \<Rightarrow> 'a list" where
  "py_slice_to xs n =
     (if n < 0 then take (nat (int (length xs) + n)) xs else take (nat n) xs)"

text \<open>
  The elements a \<^verbatim>\<open>for\<close> loop draws from \<^verbatim>\<open>x[:n]\<close>: a list gives its elements, a string
  its characters as one-character strings; slicing anything else raises (\<open>None\<close>).
\<close>

fun py_slice_iter :: "json \<Rightarrow> int \<Rightarrow> json list option" where
  "py_slice_iter (JArr xs) n = Some (py_slice_to xs n)"
| "py_slice_iter (JStr s) n = Some (map (\<lambda>c. JStr [c]) (py_slice_to s n))"
| "py_slice_iter JNull n = None"
| "py_slice_iter (JBool b) n = None"
| "py_slice_iter (JNum k) n = None"
| "py_slice_iter (JFrac v) n = None"
| "py_slice_iter (JObj kvs) n = None"

text \<open>
  The elements a \<^verbatim>\<open>for\<close> loop draws from \<open>x\<close> itself: a dict gives its keys; \<^verbatim>\<open>None\<close>,
  a bool and a number are not iterable (\<open>None\<close>).
\<close>

fun py_iter :: "json \<Rightarrow> json list option" where
  "py_iter (JArr xs) = Some xs"
| "py_iter (JStr s) = Some (map (\<lambda>c. JStr [c]) s)"
| "py_iter (JObj kvs) = Some (map (\<lambda>kv. JStr (fst kv)) kvs)"
| "py_iter JNull = None"
| "py_iter (JBool b) = None"
| "py_iter (JNum k) = None"
| "py_iter (JFrac v) = None"

text \<open>\<^verbatim>\<open>s.split(sep)[0]\<close>: the part of \<open>s\<close> before the first occurrence of \<open>sep\<close>.\<close>

fun split_head :: "string \<Rightarrow> string \<Rightarrow> string" where
  "split_head sep [] = []"
| "split_head sep (c # cs) =
     (if take (length sep) (c # cs) = sep then [] else c # split_head sep cs)"

text \<open>Python's decimal rendering of an integer, as an f-string writes it.\<close>

definition digit_char :: "nat \<Rightarrow> char" where
  "digit_char d = ''0123456789'' ! d"

fun str_nat :: "nat \<Rightarrow> string" where
  "str_nat n = (if n < 10 then [digit_char n] else str_nat (n div 10) @ [digit_char (n mod 10)])"

definition str_int :: "int \<Rightarrow> string" where
  "str_int i = (if i < 0 then CHR ''-'' # str_nat (nat (- i)) else str_nat (nat i))"

subsection \<open>Result records and response envelopes\<close>

text \<open>
  The fields an adapter copies out of a provider's reply are not coerced, so they are JSON
  values; the fields the program writes itself are strings. The credibility score is the
  decimal constant of the source.
\<close>

record result_record =
  title :: json
  url :: json
  snippet :: json
  source :: string
  language :: string
  credibility_score :: real
  published_date :: string

text \<open>
  The two dicts the program returns: the search envelope with its five keys and the error
  envelope with its two. \<open>status\<close> is a string in both, as in the source.
\<close>

datatype response =
    SearchResponse (status: string) (query: string) (results_count: int)
      (processing_time: string) (results: "result_record list")
  | ErrorResponse (status: string) (message: string)

subsection \<open>Configuration, the outside world and effects\<close>

record config =
  search_api :: string
  google_api_key :: string
  google_cx :: string
  baidu_api_key :: string
  baidu_secret_key :: string
  env_RAPIDAPI_KEY :: string
  env_GOOGLE_API_KEY :: string
  env_GOOGLE_CX :: string
  env_BAIDU_API_KEY :: string
  env_BAIDU_SECRET_KEY :: string
  timeout :: int
  cache_duration :: int

datatype http_method = GET | POST

text \<open>
  One call of \<^verbatim>\<open>requests.get\<close> or \<^verbatim>\<open>requests.post\<close> with the arguments the source passes.
  \<open>call_timeout\<close> is \<open>None\<close> when the call passes no \<^verbatim>\<open>timeout=\<close>.
\<close>

record http_call =
  call_method :: http_method
  call_url :: string
  call_headers :: "(string \<times> string) list"
  call_params :: "(string \<times> json) list"
  call_json :: "json option"
  call_timeout :: "int option"

text \<open>
  What a call comes back with: an exception (connection error, timeout), or a response
  with its status code, its text and the value of \<^verbatim>\<open>response.json()\<close> (\<open>None\<close> when
  parsing raises).
\<close>

datatype http_reply =
    Raises
  | Reply (status_code: int) (reply_text: string) (reply_json: "json option")

text \<open>
  \<open>time_lookup\<close> is \<^verbatim>\<open>time.time()\<close> as \<^verbatim>\<open>get_from_cache\<close> reads it, \<open>time_store\<close> as
  \<^verbatim>\<open>save_to_cache\<close> reads it after the fetch; \<open>today\<close> is
  \<^verbatim>\<open>datetime.now().strftime("%Y-%m-%d")\<close>.
\<close>

record world =
  net :: "http_call \<Rightarrow> http_reply"
  time_lookup :: real
  time_store :: real
  today :: string

type_synonym cache = "string \<rightharpoonup> (real \<times> response)"

datatype event =
    CacheRead string
  | CacheWrite string
  | HttpCall http_call

subsection \<open>Cache management\<close>

text \<open>
  \<^verbatim>\<open>time.time()\<close> and the stored timestamp are doubles, and \<^verbatim>\<open>time.time() - timestamp\<close>
  is their difference rounded to a double: to the nearest multiple of the unit in the last
  of the 53 binary places of its binade, a tie going to the even multiple. Below
  \<open>2 powi (- 1022)\<close> the unit stays that of the lowest binade. (Overflow beyond the largest
  double is not modelled; clock readings are far from it.) The clock readings of the
  program are doubles themselves; the definitions and theorems take every real number.
\<close>

definition round_half_even :: "real \<Rightarrow> int" where
  "round_half_even t =
     (if t - of_int \<lfloor>t\<rfloor> < 1 / 2 then \<lfloor>t\<rfloor>
      else if 1 / 2 < t - of_int \<lfloor>t\<rfloor> then \<lfloor>t\<rfloor> + 1
      else if even \<lfloor>t\<rfloor> then \<lfloor>t\<rfloor> else \<lfloor>t\<rfloor> + 1)"

definition double_ulp :: "real \<Rightarrow> real" where
  "double_ulp x = 2 powi (max \<lfloor>log 2 \<bar>x\<bar>\<rfloor> (- 1022) - 52)"

definition round_double :: "real \<Rightarrow> real" where
  "round_double x =
     (if x = 0 then 0 else of_int (round_half_even (x / double_ulp x)) * double_ulp x)"

text \<open>
  \<^verbatim>\<open>get_from_cache\<close> returns what it found together with the cache it leaves behind;
  \<^verbatim>\<open>cache_duration\<close> is in minutes, the clock in seconds. Python compares the double
  difference with the integer \<^verbatim>\<open>cache_duration * 60\<close> by value, without rounding.
\<close>

definition get_from_cache ::
  "config \<Rightarrow> real \<Rightarrow> cache \<Rightarrow> string \<Rightarrow> response option \<times> cache" where
  "get_from_cache cfg now c key =
     (case c key of
        None \<Rightarrow> (None, c)
      | Some (timestamp, data) \<Rightarrow>
          if round_double (now - timestamp) < of_int (cache_duration cfg * 60)
          then (Some data, c)
          else (None, c))"

definition save_to_cache :: "real \<Rightarrow> cache \<Rightarrow> string \<Rightarrow> response \<Rightarrow> cache" where
  "save_to_cache now c key data = c(key \<mapsto> (now, data))"

subsection \<open>The mock generator\<close>

definition mock_record :: "string \<Rightarrow> string \<Rightarrow> string \<Rightarrow> nat \<Rightarrow> result_record" where
  "mock_record q lang date i =
     \<lparr> title = JStr (''Result '' @ str_int (int i + 1) @ '' for '' @ [CHR 0x27] @ q @ [CHR 0x27]),
       url = JStr (''https://example.com/result'' @ str_int (int i + 1)),
       snippet = JStr (''This is a mock result '' @ str_int (int i + 1) @ '' for the query ''
                  @ [CHR 0x27] @ q @ [CHR 0x27]
                  @ ''. This is generated as a fallback when no search API is available.''),
       source = ''mock'',
       language = lang,
       credibility_score = 0.5,
       published_date = date \<rparr>"

definition search_fallback :: "string \<Rightarrow> string \<Rightarrow> int \<Rightarrow> string \<Rightarrow> response" where
  "search_fallback q lang max_results date =
     (let results = map (mock_record q lang date) [0 ..< nat (min max_results 10)]
      in SearchResponse ''success'' q (int (length results)) ''0.1s'' results)"

text \<open>
  The decimal numerals of 1 to 10, the numbers the mock records carry: the digits
  \<open>1\<close> to \<open>9\<close>, each a string of its own, then \<open>10\<close>.
\<close>

definition one_to_ten :: "string list" where
  "one_to_ten = map (\<lambda>c. [c]) ''123456789'' @ [''10'']"

subsection \<open>The generic adapter\<close>

text \<open>
  The body of each adapter runs inside \<^verbatim>\<open>try: ... except Exception\<close>. A function that
  models part of such a body returns \<open>None\<close> where the Python raises; the adapter then
  returns what the handler returns, the mock results.
\<close>

text \<open>
  The title of a related topic:
  \<^verbatim>\<open>t.split(" - ")[0] if " - " in t else t\<close> for \<^verbatim>\<open>t = topic.get("Text", "")\<close>.
  Only a string has \<^verbatim>\<open>split\<close>.
\<close>

definition topic_title :: "json \<Rightarrow> json option" where
  "topic_title t =
     (case py_in '' - '' t of
        None \<Rightarrow> None
      | Some True \<Rightarrow> (case t of JStr s \<Rightarrow> Some (JStr (split_head '' - '' s)) | _ \<Rightarrow> None)
      | Some False \<Rightarrow> Some t)"

text \<open>
  One turn of the loop over the related topics: the records it appends (none or one).
  \<^verbatim>\<open>topic.get\<close> exists on a dict only.
\<close>

definition free_topic :: "string \<Rightarrow> string \<Rightarrow> json \<Rightarrow> result_record list option" where
  "free_topic lang date topic =
     (case py_in ''Text'' topic of
        None \<Rightarrow> None
      | Some has_text \<Rightarrow>
          (case (if has_text then py_in ''FirstURL'' topic else Some False) of
             None \<Rightarrow> None
           | Some False \<Rightarrow> Some []
           | Some True \<Rightarrow>
               (case topic of
                  JObj kvs \<Rightarrow>
                    (case topic_title (dict_get kvs ''Text'' (JStr [])) of
                       None \<Rightarrow> None
                     | Some ttl \<Rightarrow>
                         Some [\<lparr> title = ttl,
                                 url = dict_get kvs ''FirstURL'' (JStr []),
                                 snippet = dict_get kvs ''Text'' (JStr []),
                                 source = ''duckduckgo'',
                                 language = lang,
                                 credibility_score = 0.7,
                                 published_date = date \<rparr>])
                | _ \<Rightarrow> None)))"

fun free_topics :: "string \<Rightarrow> string \<Rightarrow> json list \<Rightarrow> result_record list option" where
  "free_topics lang date [] = Some []"
| "free_topics lang date (topic # topics) =
     (case free_topic lang date topic of
        None \<Rightarrow> None
      | Some rs \<Rightarrow>
          (case free_topics lang date topics of
             None \<Rightarrow> None
           | Some rest \<Rightarrow> Some (rs @ rest)))"

text \<open>The abstract record, appended when \<^verbatim>\<open>data.get("AbstractText")\<close> is true.\<close>

definition free_abstract :: "string \<Rightarrow> string \<Rightarrow> (string \<times> json) list \<Rightarrow> result_record list" where
  "free_abstract lang date kvs =
     (if py_truthy (dict_get kvs ''AbstractText'' JNull)
      then [\<lparr> title = dict_get kvs ''Heading'' (JStr ''Abstract''),
              url = dict_get kvs ''AbstractURL'' (JStr []),
              snippet = dict_get kvs ''AbstractText'' (JStr []),
              source = ''duckduckgo'',
              language = lang,
              credibility_score = 0.8,
              published_date = date \<rparr>]
      else [])"

text \<open>
  The records built from a 200 reply: the abstract, then the related topics of
  \<^verbatim>\<open>data.get("RelatedTopics", [])[:max_results-1]\<close>. \<^verbatim>\<open>data.get\<close> exists on a dict only.
\<close>

definition free_results :: "string \<Rightarrow> int \<Rightarrow> string \<Rightarrow> json \<Rightarrow> result_record list option" where
  "free_results lang max_results date data =
     (case data of
        JObj kvs \<Rightarrow>
          (case py_slice_iter (dict_get kvs ''RelatedTopics'' (JArr [])) (max_results - 1) of
             None \<Rightarrow> None
           | Some topics \<Rightarrow>
               (case free_topics lang date topics of
                  None \<Rightarrow> None
                | Some rs \<Rightarrow> Some (free_abstract lang date kvs @ rs)))
      | _ \<Rightarrow> None)"

definition free_call :: "config \<Rightarrow> string \<Rightarrow> http_call" where
  "free_call cfg q =
     \<lparr> call_method = GET,
       call_url = ''https://duckduckgo-duckduckgo-zero-click-info.p.rapidapi.com/'',
       call_headers =
         [(''X-RapidAPI-Key'', env_RAPIDAPI_KEY cfg),
          (''X-RapidAPI-Host'', ''duckduckgo-duckduckgo-zero-click-info.p.rapidapi.com'')],
       call_params = [(''q'', JStr q), (''format'', JStr ''json'')],
       call_json = None,
       call_timeout = Some (timeout cfg) \<rparr>"

text \<open>
  Each adapter returns its response and the HTTP calls it made, in order.
\<close>

definition search_free_api ::
  "config \<Rightarrow> world \<Rightarrow> string \<Rightarrow> string \<Rightarrow> int \<Rightarrow> response \<times> http_call list" where
  "search_free_api cfg w q lang max_results =
     (if env_RAPIDAPI_KEY cfg = [] then (search_fallback q lang max_results (today w), [])
      else
        (case net w (free_call cfg q) of
           Raises \<Rightarrow> (search_fallback q lang max_results (today w), [free_call cfg q])
         | Reply code txt body \<Rightarrow>
             if code = 200 then
               (case body of
                  None \<Rightarrow> (search_fallback q lang max_results (today w), [free_call cfg q])
                | Some data \<Rightarrow>
                    (case free_results lang max_results (today w) data of
                       None \<Rightarrow> (search_fallback q lang max_results (today w), [free_call cfg q])
                     | Some recs \<Rightarrow>
                         (SearchResponse ''success'' q (int (length recs)) ''1.0s'' recs,
                          [free_call cfg q])))
             else (search_fallback q lang max_results (today w), [free_call cfg q])))"

subsection \<open>The commercial adapter\<close>

text \<open>\<^verbatim>\<open>a or b\<close> on two strings: \<open>a\<close> unless it is empty.\<close>

definition str_or :: "string \<Rightarrow> string \<Rightarrow> string" where
  "str_or a b = (if a \<noteq> [] then a else b)"

definition google_item :: "string \<Rightarrow> string \<Rightarrow> json \<Rightarrow> result_record option" where
  "google_item lang date item =
     (case item of
        JObj kvs \<Rightarrow>
          Some \<lparr> title = dict_get kvs ''title'' (JStr []),
                 url = dict_get kvs ''link'' (JStr []),
                 snippet = dict_get kvs ''snippet'' (JStr []),
                 source = ''google'',
                 language = lang,
                 credibility_score = 0.9,
                 published_date = date \<rparr>
      | _ \<Rightarrow> None)"

text \<open>
  A loop that appends one record per item; an item that raises ends the whole body.
\<close>

fun collect :: "(json \<Rightarrow> result_record option) \<Rightarrow> json list \<Rightarrow> result_record list option" where
  "collect f [] = Some []"
| "collect f (item # items) =
     (case f item of
        None \<Rightarrow> None
      | Some r \<Rightarrow> (case collect f items of None \<Rightarrow> None | Some rs \<Rightarrow> Some (r # rs)))"

text \<open>
  The items a reply holds under \<open>key\<close>: what \<^verbatim>\<open>for item in data.get(key, [])\<close> runs over.
\<close>

definition reply_items :: "string \<Rightarrow> json \<Rightarrow> json list option" where
  "reply_items key data =
     (case data of JObj kvs \<Rightarrow> py_iter (dict_get kvs key (JArr [])) | _ \<Rightarrow> None)"

definition google_results :: "string \<Rightarrow> string \<Rightarrow> json \<Rightarrow> result_record list option" where
  "google_results lang date data =
     (case reply_items ''items'' data of
        None \<Rightarrow> None
      | Some items \<Rightarrow> collect (google_item lang date) items)"

definition google_call :: "config \<Rightarrow> string \<Rightarrow> string \<Rightarrow> int \<Rightarrow> http_call" where
  "google_call cfg q lang max_results =
     \<lparr> call_method = GET,
       call_url = ''https://www.googleapis.com/customsearch/v1'',
       call_headers = [],
       call_params =
         [(''key'', JStr (str_or (google_api_key cfg) (env_GOOGLE_API_KEY cfg))),
          (''cx'', JStr (str_or (google_cx cfg) (env_GOOGLE_CX cfg))),
          (''q'', JStr q),
          (''lr'', JStr (''lang_'' @ lang)),
          (''num'', JNum (min max_results 10))],
       call_json = None,
       call_timeout = Some (timeout cfg) \<rparr>"

definition search_google_api ::
  "config \<Rightarrow> world \<Rightarrow> string \<Rightarrow> string \<Rightarrow> int \<Rightarrow> response \<times> http_call list" where
  "search_google_api cfg w q lang max_results =
     (if str_or (google_api_key cfg) (env_GOOGLE_API_KEY cfg) = []
         \<or> str_or (google_cx cfg) (env_GOOGLE_CX cfg) = []
      then (search_fallback q lang max_results (today w), [])
      else
        (case net w (google_call cfg q lang max_results) of
           Raises \<Rightarrow>
             (search_fallback q lang max_results (today w), [google_call cfg q lang max_results])
         | Reply code txt body \<Rightarrow>
             if code = 200 then
               (case body of
                  None \<Rightarrow>
                    (search_fallback q lang max_results (today w),
                     [google_call cfg q lang max_results])
                | Some data \<Rightarrow>
                    (case google_results lang (today w) data of
                       None \<Rightarrow>
                         (search_fallback q lang max_results (today w),
                          [google_call cfg q lang max_results])
                     | Some recs \<Rightarrow>
                         (SearchResponse ''success'' q (int (length recs)) ''1.0s'' recs,
                          [google_call cfg q lang max_results])))
             else
               (search_fallback q lang max_results (today w),
                [google_call cfg q lang max_results])))"

subsection \<open>The regional adapter\<close>

definition baidu_item :: "string \<Rightarrow> string \<Rightarrow> json \<Rightarrow> result_record option" where
  "baidu_item lang date item =
     (case item of
        JObj kvs \<Rightarrow>
          Some \<lparr> title = dict_get kvs ''title'' (JStr []),
                 url = dict_get kvs ''url'' (JStr []),
                 snippet = dict_get kvs ''content'' (JStr []),
                 source = ''baidu'',
                 language = lang,
                 credibility_score = 0.8,
                 published_date = date \<rparr>
      | _ \<Rightarrow> None)"

definition baidu_results :: "string \<Rightarrow> string \<Rightarrow> json \<Rightarrow> result_record list option" where
  "baidu_results lang date data =
     (case reply_items ''result'' data of
        None \<Rightarrow> None
      | Some items \<Rightarrow> collect (baidu_item lang date) items)"

text \<open>The token request: \<^verbatim>\<open>requests.post(token_url)\<close>, with no other argument.\<close>

definition baidu_token_call :: "config \<Rightarrow> http_call" where
  "baidu_token_call cfg =
     \<lparr> call_method = POST,
       call_url =
         ''https://aip.baidubce.com/oauth/2.0/token?grant_type=client_credentials&client_id=''
         @ str_or (baidu_api_key cfg) (env_BAIDU_API_KEY cfg)
         @ ''&client_secret=''
         @ str_or (baidu_secret_key cfg) (env_BAIDU_SECRET_KEY cfg),
       call_headers = [],
       call_params = [],
       call_json = None,
       call_timeout = None \<rparr>"

text \<open>
  The search request:
  \<^verbatim>\<open>requests.post(url, headers=headers, params=params, json=payload, timeout=timeout)\<close>.
\<close>

definition baidu_call :: "config \<Rightarrow> string \<Rightarrow> int \<Rightarrow> json \<Rightarrow> http_call" where
  "baidu_call cfg q max_results access_token =
     \<lparr> call_method = POST,
       call_url = ''https://aip.baidubce.com/rpc/2.0/creation/v1/search/realtime'',
       call_headers = [(''Content-Type'', ''application/json''), (''Accept'', ''application/json'')],
       call_params = [(''access_token'', access_token)],
       call_json = Some (JObj [(''query'', JStr q), (''num'', JNum (min max_results 10))]),
       call_timeout = Some (timeout cfg) \<rparr>"

text \<open>
  The second step, once the token reply's body is parsed:
  \<^verbatim>\<open>token_response.json().get("access_token")\<close> needs a dict.
\<close>

definition baidu_search ::
  "config \<Rightarrow> world \<Rightarrow> string \<Rightarrow> string \<Rightarrow> int \<Rightarrow> json \<Rightarrow> response \<times> http_call list" where
  "baidu_search cfg w q lang max_results token_body =
     (case token_body of
        JObj kvs \<Rightarrow>
          (case net w (baidu_call cfg q max_results (dict_get kvs ''access_token'' JNull)) of
             Raises \<Rightarrow>
               (search_fallback q lang max_results (today w),
                [baidu_token_call cfg,
                 baidu_call cfg q max_results (dict_get kvs ''access_token'' JNull)])
           | Reply code txt body \<Rightarrow>
               if code = 200 then
                 (case body of
                    None \<Rightarrow>
                      (search_fallback q lang max_results (today w),
                       [baidu_token_call cfg,
                        baidu_call cfg q max_results (dict_get kvs ''access_token'' JNull)])
                  | Some data \<Rightarrow>
                      (case baidu_results lang (today w) data of
                         None \<Rightarrow>
                           (search_fallback q lang max_results (today w),
                            [baidu_token_call cfg,
                             baidu_call cfg q max_results (dict_get kvs ''access_token'' JNull)])
                       | Some recs \<Rightarrow>
                           (SearchResponse ''success'' q (int (length recs)) ''1.0s'' recs,
                            [baidu_token_call cfg,
                             baidu_call cfg q max_results (dict_get kvs ''access_token'' JNull)])))
               else
                 (search_fallback q lang max_results (today w),
                  [baidu_token_call cfg,
                   baidu_call cfg q max_results (dict_get kvs ''access_token'' JNull)]))
      | _ \<Rightarrow> (search_fallback q lang max_results (today w), [baidu_token_call cfg]))"

definition search_baidu_api ::
  "config \<Rightarrow> world \<Rightarrow> string \<Rightarrow> string \<Rightarrow> int \<Rightarrow> response \<times> http_call list" where
  "search_baidu_api cfg w q lang max_results =
     (if str_or (baidu_api_key cfg) (env_BAIDU_API_KEY cfg) = []
         \<or> str_or (baidu_secret_key cfg) (env_BAIDU_SECRET_KEY cfg) = []
      then (search_fallback q lang max_results (today w), [])
      else
        (case net w (baidu_token_call cfg) of
           Raises \<Rightarrow> (search_fallback q lang max_results (today w), [baidu_token_call cfg])
         | Reply code txt body \<Rightarrow>
             if code \<noteq> 200
             then (search_fallback q lang max_results (today w), [baidu_token_call cfg])
             else
               (case body of
                  None \<Rightarrow> (search_fallback q lang max_results (today w), [baidu_token_call cfg])
                | Some token_body \<Rightarrow> baidu_search cfg w q lang max_results token_body)))"

subsection \<open>The dispatcher\<close>

text \<open>
  \<^verbatim>\<open>perform_search\<close> returns the response, the cache it leaves and the events of the call.
  The cache key is the f-string \<^verbatim>\<open>f"{search_api}:{query}:{language}:{max_results}"\<close>.
  A cached value is a non-empty dict, so \<^verbatim>\<open>if cached_result:\<close> holds whenever the lookup
  found one. \<open>sources\<close> is accepted and not used.
\<close>

definition cache_key :: "config \<Rightarrow> string \<Rightarrow> string \<Rightarrow> int \<Rightarrow> string" where
  "cache_key cfg q lang max_results =
     search_api cfg @ '':'' @ q @ '':'' @ lang @ '':'' @ str_int max_results"

definition dispatch ::
  "config \<Rightarrow> world \<Rightarrow> string \<Rightarrow> string \<Rightarrow> int \<Rightarrow> response \<times> http_call list" where
  "dispatch cfg w q lang max_results =
     (if search_api cfg = ''Google Search API'' then search_google_api cfg w q lang max_results
      else if search_api cfg = ''Baidu Search API'' then search_baidu_api cfg w q lang max_results
      else search_free_api cfg w q lang max_results)"

definition perform_search ::
  "config \<Rightarrow> world \<Rightarrow> cache \<Rightarrow> string \<Rightarrow> string \<Rightarrow> string list option \<Rightarrow> int
     \<Rightarrow> response \<times> cache \<times> event list" where
  "perform_search cfg w c q lang sources max_results =
     (case get_from_cache cfg (time_lookup w) c (cache_key cfg q lang max_results) of
        (Some cached_result, c') \<Rightarrow>
          (cached_result, c', [CacheRead (cache_key cfg q lang max_results)])
      | (None, c') \<Rightarrow>
          (case dispatch cfg w q lang max_results of
             (result, calls) \<Rightarrow>
               (result,
                save_to_cache (time_store w) c' (cache_key cfg q lang max_results) result,
                CacheRead (cache_key cfg q lang max_results) # map HttpCall calls
                  @ [CacheWrite (cache_key cfg q lang max_results)])))"

subsection \<open>A max_results of any type\<close>

text \<open>
  The definitions above take \<^verbatim>\<open>max_results\<close> as an integer, the type the interface documents
  and the search form passes. The request handler passes on whatever the request body
  holds under that key, and Python runs the same functions on it. This subsection follows
  them for a \<^verbatim>\<open>max_results\<close> of any type; the lemmas \<open>search_fallback_any_int\<close> to
  \<open>perform_search_any_int\<close> below show that on an integer they are the definitions above.

  A value is given by the Python type it parses to. A float and a list or dict carry the
  text that \<^verbatim>\<open>str()\<close> prints for them, which is not computed here. A float is given by a
  real value; \<^verbatim>\<open>NaN\<close> and the infinities, which \<^verbatim>\<open>json.loads\<close> also accepts, take the same
  paths as a float not above 10 (\<^verbatim>\<open>NaN\<close>, \<^verbatim>\<open>-Infinity\<close>) or above 10 (\<^verbatim>\<open>Infinity\<close>).
\<close>

datatype py_error = TypeError

datatype py_number = PInt int | PBool bool | PFloat real string

datatype py_value = PNum py_number | PNone | PStr string | PCompound string

text \<open>The text an f-string writes for a value.\<close>

fun py_str :: "py_value \<Rightarrow> string" where
  "py_str (PNum (PInt n)) = str_int n"
| "py_str (PNum (PBool b)) = (if b then ''True'' else ''False'')"
| "py_str (PNum (PFloat v s)) = s"
| "py_str PNone = ''None''"
| "py_str (PStr s) = s"
| "py_str (PCompound s) = s"

text \<open>
  \<^verbatim>\<open>min(max_results, 10)\<close>: 10 if \<^verbatim>\<open>10 < max_results\<close>, else \<^verbatim>\<open>max_results\<close> itself. A bool compares
  as 0 or 1. Comparing 10 with \<^verbatim>\<open>None\<close>, a string, a list or a dict raises TypeError
  (\<open>None\<close> here).
\<close>

fun py_min_10 :: "py_value \<Rightarrow> py_number option" where
  "py_min_10 (PNum (PInt n)) = Some (PInt (if 10 < n then 10 else n))"
| "py_min_10 (PNum (PBool b)) = Some (PBool b)"
| "py_min_10 (PNum (PFloat v s)) = Some (if 10 < v then PInt 10 else PFloat v s)"
| "py_min_10 PNone = None"
| "py_min_10 (PStr s) = None"
| "py_min_10 (PCompound s) = None"

text \<open>
  The number of turns of a loop over \<^verbatim>\<open>range(x)\<close>: a float cannot be interpreted as an
  integer (TypeError).
\<close>

fun py_range :: "py_number \<Rightarrow> nat option" where
  "py_range (PInt n) = Some (nat n)"
| "py_range (PBool b) = Some (if b then 1 else 0)"
| "py_range (PFloat v s) = None"

text \<open>
  \<^verbatim>\<open>max_results - 1\<close> as the bound of a slice: the subtraction raises on \<^verbatim>\<open>None\<close>, a string,
  a list or a dict, and a float is not a slice index (TypeError both).
\<close>

fun py_slice_bound :: "py_value \<Rightarrow> int option" where
  "py_slice_bound (PNum (PInt n)) = Some (n - 1)"
| "py_slice_bound (PNum (PBool b)) = Some ((if b then 1 else 0) - 1)"
| "py_slice_bound (PNum (PFloat v s)) = None"
| "py_slice_bound PNone = None"
| "py_slice_bound (PStr s) = None"
| "py_slice_bound (PCompound s) = None"

text \<open>A number as a request carries it.\<close>

fun number_json :: "py_number \<Rightarrow> json" where
  "number_json (PInt n) = JNum n"
| "number_json (PBool b) = JBool b"
| "number_json (PFloat v s) = JFrac v"

text \<open>
  \<^verbatim>\<open>search_fallback\<close> is called outside any \<^verbatim>\<open>try\<close>, or from an \<^verbatim>\<open>except\<close> handler: what it
  raises leaves the adapter.
\<close>

definition search_fallback_any ::
  "string \<Rightarrow> string \<Rightarrow> py_value \<Rightarrow> string \<Rightarrow> py_error + response" where
  "search_fallback_any q lang max_results date =
     (case py_min_10 max_results of
        None \<Rightarrow> Inl TypeError
      | Some bound \<Rightarrow>
          (case py_range bound of
             None \<Rightarrow> Inl TypeError
           | Some n \<Rightarrow>
               (let results = map (mock_record q lang date) [0 ..< n]
                in Inr (SearchResponse ''success'' q (int (length results)) ''0.1s'' results))))"

definition free_results_any ::
  "string \<Rightarrow> py_value \<Rightarrow> string \<Rightarrow> json \<Rightarrow> result_record list option" where
  "free_results_any lang max_results date data =
     (case data of
        JObj kvs \<Rightarrow>
          (case py_slice_bound max_results of
             None \<Rightarrow> None
           | Some bound \<Rightarrow>
               (case py_slice_iter (dict_get kvs ''RelatedTopics'' (JArr [])) bound of
                  None \<Rightarrow> None
                | Some topics \<Rightarrow>
                    (case free_topics lang date topics of
                       None \<Rightarrow> None
                     | Some rs \<Rightarrow> Some (free_abstract lang date kvs @ rs))))
      | _ \<Rightarrow> None)"

definition search_free_api_any ::
  "config \<Rightarrow> world \<Rightarrow> string \<Rightarrow> string \<Rightarrow> py_value
     \<Rightarrow> (py_error + response) \<times> http_call list" where
  "search_free_api_any cfg w q lang max_results =
     (if env_RAPIDAPI_KEY cfg = []
      then (search_fallback_any q lang max_results (today w), [])
      else
        (case net w (free_call cfg q) of
           Raises \<Rightarrow> (search_fallback_any q lang max_results (today w), [free_call cfg q])
         | Reply code txt body \<Rightarrow>
             if code = 200 then
               (case body of
                  None \<Rightarrow> (search_fallback_any q lang max_results (today w), [free_call cfg q])
                | Some data \<Rightarrow>
                    (case free_results_any lang max_results (today w) data of
                       None \<Rightarrow>
                         (search_fallback_any q lang max_results (today w), [free_call cfg q])
                     | Some recs \<Rightarrow>
                         (Inr (SearchResponse ''success'' q (int (length recs)) ''1.0s'' recs),
                          [free_call cfg q])))
             else (search_fallback_any q lang max_results (today w), [free_call cfg q])))"

text \<open>The commercial request with \<^verbatim>\<open>num\<close> as computed.\<close>

definition google_call_any :: "config \<Rightarrow> string \<Rightarrow> string \<Rightarrow> json \<Rightarrow> http_call" where
  "google_call_any cfg q lang num =
     \<lparr> call_method = GET,
       call_url = ''https://www.googleapis.com/customsearch/v1'',
       call_headers = [],
       call_params =
         [(''key'', JStr (str_or (google_api_key cfg) (env_GOOGLE_API_KEY cfg))),
          (''cx'', JStr (str_or (google_cx cfg) (env_GOOGLE_CX cfg))),
          (''q'', JStr q),
          (''lr'', JStr (''lang_'' @ lang)),
          (''num'', num)],
       call_json = None,
       call_timeout = Some (timeout cfg) \<rparr>"

text \<open>
  The \<^verbatim>\<open>params\<close> dict is built, and \<^verbatim>\<open>min\<close> evaluated, inside the \<^verbatim>\<open>try\<close> and before the
  request is sent.
\<close>

definition search_google_api_any ::
  "config \<Rightarrow> world \<Rightarrow> string \<Rightarrow> string \<Rightarrow> py_value
     \<Rightarrow> (py_error + response) \<times> http_call list" where
  "search_google_api_any cfg w q lang max_results =
     (if str_or (google_api_key cfg) (env_GOOGLE_API_KEY cfg) = []
         \<or> str_or (google_cx cfg) (env_GOOGLE_CX cfg) = []
      then (search_fallback_any q lang max_results (today w), [])
      else
        (case py_min_10 max_results of
           None \<Rightarrow> (search_fallback_any q lang max_results (today w), [])
         | Some num \<Rightarrow>
             (case net w (google_call_any cfg q lang (number_json num)) of
                Raises \<Rightarrow>
                  (search_fallback_any q lang max_results (today w),
                   [google_call_any cfg q lang (number_json num)])
              | Reply code txt body \<Rightarrow>
                  if code = 200 then
                    (case body of
                       None \<Rightarrow>
                         (search_fallback_any q lang max_results (today w),
                          [google_call_any cfg q lang (number_json num)])
                     | Some data \<Rightarrow>
                         (case google_results lang (today w) data of
                            None \<Rightarrow>
                              (search_fallback_any q lang max_results (today w),
                               [google_call_any cfg q lang (number_json num)])
                          | Some recs \<Rightarrow>
                              (Inr (SearchResponse ''success'' q (int (length recs)) ''1.0s'' recs),
                               [google_call_any cfg q lang (number_json num)])))
                  else
                    (search_fallback_any q lang max_results (today w),
                     [google_call_any cfg q lang (number_json num)]))))"

text \<open>The regional search request with \<^verbatim>\<open>num\<close> as computed.\<close>

definition baidu_call_any :: "config \<Rightarrow> string \<Rightarrow> json \<Rightarrow> json \<Rightarrow> http_call" where
  "baidu_call_any cfg q num access_token =
     \<lparr> call_method = POST,
       call_url = ''https://aip.baidubce.com/rpc/2.0/creation/v1/search/realtime'',
       call_headers = [(''Content-Type'', ''application/json''), (''Accept'', ''application/json'')],
       call_params = [(''access_token'', access_token)],
       call_json = Some (JObj [(''query'', JStr q), (''num'', num)]),
       call_timeout = Some (timeout cfg) \<rparr>"

text \<open>
  The token is read from the reply first, then the payload is built (\<^verbatim>\<open>min\<close>), then the
  search request is sent.
\<close>

definition baidu_search_any ::
  "config \<Rightarrow> world \<Rightarrow> string \<Rightarrow> string \<Rightarrow> py_value \<Rightarrow> json
     \<Rightarrow> (py_error + response) \<times> http_call list" where
  "baidu_search_any cfg w q lang max_results token_body =
     (case token_body of
        JObj kvs \<Rightarrow>
          (case py_min_10 max_results of
             None \<Rightarrow> (search_fallback_any q lang max_results (today w), [baidu_token_call cfg])
           | Some num \<Rightarrow>
               (case net w (baidu_call_any cfg q (number_json num)
                             (dict_get kvs ''access_token'' JNull)) of
                  Raises \<Rightarrow>
                    (search_fallback_any q lang max_results (today w),
                     [baidu_token_call cfg,
                      baidu_call_any cfg q (number_json num)
                        (dict_get kvs ''access_token'' JNull)])
                | Reply code txt body \<Rightarrow>
                    if code = 200 then
                      (case body of
                         None \<Rightarrow>
                           (search_fallback_any q lang max_results (today w),
                            [baidu_token_call cfg,
                             baidu_call_any cfg q (number_json num)
                               (dict_get kvs ''access_token'' JNull)])
                       | Some data \<Rightarrow>
                           (case baidu_results lang (today w) data of
                              None \<Rightarrow>
                                (search_fallback_any q lang max_results (today w),
                                 [baidu_token_call cfg,
                                  baidu_call_any cfg q (number_json num)
                                    (dict_get kvs ''access_token'' JNull)])
                            | Some recs \<Rightarrow>
                                (Inr (SearchResponse ''success'' q (int (length recs)) ''1.0s''
                                        recs),
                                 [baidu_token_call cfg,
                                  baidu_call_any cfg q (number_json num)
                                    (dict_get kvs ''access_token'' JNull)])))
                    else
                      (search_fallback_any q lang max_results (today w),
                       [baidu_token_call cfg,
                        baidu_call_any cfg q (number_json num)
                          (dict_get kvs ''access_token'' JNull)])))
      | _ \<Rightarrow> (search_fallback_any q lang max_results (today w), [baidu_token_call cfg]))"

definition search_baidu_api_any ::
  "config \<Rightarrow> world \<Rightarrow> string \<Rightarrow> string \<Rightarrow> py_value
     \<Rightarrow> (py_error + response) \<times> http_call list" where
  "search_baidu_api_any cfg w q lang max_results =
     (if str_or (baidu_api_key cfg) (env_BAIDU_API_KEY cfg) = []
         \<or> str_or (baidu_secret_key cfg) (env_BAIDU_SECRET_KEY cfg) = []
      then (search_fallback_any q lang max_results (today w), [])
      else
        (case net w (baidu_token_call cfg) of
           Raises \<Rightarrow> (search_fallback_any q lang max_results (today w), [baidu_token_call cfg])
         | Reply code txt body \<Rightarrow>
             if code \<noteq> 200
             then (search_fallback_any q lang max_results (today w), [baidu_token_call cfg])
             else
               (case body of
                  None \<Rightarrow>
                    (search_fallback_any q lang max_results (today w), [baidu_token_call cfg])
                | Some token_body \<Rightarrow> baidu_search_any cfg w q lang max_results token_body)))"

definition cache_key_any :: "config \<Rightarrow> string \<Rightarrow> string \<Rightarrow> py_value \<Rightarrow> string" where
  "cache_key_any cfg q lang max_results =
     search_api cfg @ '':'' @ q @ '':'' @ lang @ '':'' @ py_str max_results"

definition dispatch_any ::
  "config \<Rightarrow> world \<Rightarrow> string \<Rightarrow> string \<Rightarrow> py_value
     \<Rightarrow> (py_error + response) \<times> http_call list" where
  "dispatch_any cfg w q lang max_results =
     (if search_api cfg = ''Google Search API''
      then search_google_api_any cfg w q lang max_results
      else if search_api cfg = ''Baidu Search API''
      then search_baidu_api_any cfg w q lang max_results
      else search_free_api_any cfg w q lang max_results)"

text \<open>
  An exception of the adapter leaves \<^verbatim>\<open>perform_search\<close> before \<^verbatim>\<open>save_to_cache\<close>: the cache
  stays as the lookup left it.
\<close>

definition perform_search_any ::
  "config \<Rightarrow> world \<Rightarrow> cache \<Rightarrow> string \<Rightarrow> string \<Rightarrow> string list option \<Rightarrow> py_value
     \<Rightarrow> (py_error + response) \<times> cache \<times> event list" where
  "perform_search_any cfg w c q lang sources max_results =
     (case get_from_cache cfg (time_lookup w) c (cache_key_any cfg q lang max_results) of
        (Some cached_result, c') \<Rightarrow>
          (Inr cached_result, c', [CacheRead (cache_key_any cfg q lang max_results)])
      | (None, c') \<Rightarrow>
          (case dispatch_any cfg w q lang max_results of
             (Inl e, calls) \<Rightarrow>
               (Inl e, c',
                CacheRead (cache_key_any cfg q lang max_results) # map HttpCall calls)
           | (Inr result, calls) \<Rightarrow>
               (Inr result,
                save_to_cache (time_store w) c' (cache_key_any cfg q lang max_results) result,
                CacheRead (cache_key_any cfg q lang max_results) # map HttpCall calls
                  @ [CacheWrite (cache_key_any cfg q lang max_results)])))"

subsection \<open>The request handler\<close>

text \<open>
  The request body: a field is \<open>None\<close> when the body has no such key. The query and the
  language are strings: the program formats and copies them and does nothing with them
  that depends on their type. \<^verbatim>\<open>max_results\<close> is whatever the body holds. The handler
  returns a response or raises.
\<close>

record request =
  req_query :: "string option"
  req_language :: "string option"
  req_max_results :: "py_value option"
  req_sources :: "string list option"

definition api_search_endpoint ::
  "config \<Rightarrow> world \<Rightarrow> cache \<Rightarrow> request \<Rightarrow> (py_error + response) \<times> cache \<times> event list" where
  "api_search_endpoint cfg w c request_data =
     (let q = (case req_query request_data of None \<Rightarrow> [] | Some v \<Rightarrow> v);
          lang = (case req_language request_data of None \<Rightarrow> ''en'' | Some v \<Rightarrow> v);
          max_results =
            (case req_max_results request_data of None \<Rightarrow> PNum (PInt 10) | Some v \<Rightarrow> v);
          sources = (case req_sources request_data of None \<Rightarrow> Some [''web''] | Some v \<Rightarrow> Some v)
      in if q = [] then (Inr (ErrorResponse ''error'' ''Query parameter is required''), c, [])
         else perform_search_any cfg w c q lang sources max_results)"

subsection \<open>A session\<close>

text \<open>
  The cache lives in the session state. It starts empty
  (\<^verbatim>\<open>st.session_state.search_cache = {}\<close>) and the program reaches it through
  \<^verbatim>\<open>perform_search\<close> only, called by the request handler or by the search form (whose
  \<^verbatim>\<open>max_results\<close> is the integer of a number input). A request that raises leaves the cache
  as it was. Between two
  operations the settings, the network and the clock may all have changed, so each
  operation carries its own.
\<close>

datatype operation =
    Endpoint config world request
  | Search config world string string "string list option" int

fun apply_operation :: "cache \<Rightarrow> operation \<Rightarrow> cache" where
  "apply_operation c (Endpoint cfg w request_data) = fst (snd (api_search_endpoint cfg w c request_data))"
| "apply_operation c (Search cfg w q lang sources max_results) =
     fst (snd (perform_search cfg w c q lang sources max_results))"

definition session_cache :: "operation list \<Rightarrow> cache" where
  "session_cache ops = foldl apply_operation Map.empty ops"

text \<open>The outbound calls among the events of an operation.\<close>

fun http_calls :: "event list \<Rightarrow> http_call list" where
  "http_calls [] = []"
| "http_calls (HttpCall c # es) = c # http_calls es"
| "http_calls (e # es) = http_calls es"

text \<open>
  How many items a reply serves under \<open>key\<close>: the length of the sequence the adapter's
  loop runs over, and 0 for a reply the adapter does not loop over.
\<close>

definition served_items :: "string \<Rightarrow> http_reply \<Rightarrow> nat" where
  "served_items key rep =
     (case rep of
        Raises \<Rightarrow> 0
      | Reply code txt body \<Rightarrow>
          if code = 200 then
            (case body of
               None \<Rightarrow> 0
             | Some data \<Rightarrow> (case reply_items key data of None \<Rightarrow> 0 | Some items \<Rightarrow> length items))
          else 0)"

subsection \<open>Well-formed envelopes and caches\<close>

text \<open>
  \<open>envelope q r\<close>: \<open>r\<close> is a search envelope for the query \<open>q\<close>, successful and with a
  count that is the length of its results. \<open>cache_inv c\<close>: every entry of \<open>c\<close> holds one.
\<close>

definition envelope :: "string \<Rightarrow> response \<Rightarrow> bool" where
  "envelope q r = (\<exists>p rs. r = SearchResponse ''success'' q (int (length rs)) p rs)"

definition cache_inv :: "cache \<Rightarrow> bool" where
  "cache_inv c = (\<forall>k ts d. c k = Some (ts, d) \<longrightarrow> (\<exists>q. envelope q d))"

text \<open>\<open>envelope_or_error q x\<close>: \<open>x\<close> is an exception or such an envelope.\<close>

definition envelope_or_error :: "string \<Rightarrow> py_error + response \<Rightarrow> bool" where
  "envelope_or_error q x = (case x of Inl e \<Rightarrow> True | Inr r \<Rightarrow> envelope q r)"

subsection \<open>Concrete inputs\<close>

text \<open>
  Settings, worlds and requests at which the theorems below are evaluated: no credential
  at all, one provider's credentials each, a network that is down, and a network that
  answers every call with status 200 and a given body.
\<close>

definition cfg_free :: config where
  "cfg_free =
     \<lparr> search_api = ''Free Search API'', google_api_key = [], google_cx = [],
       baidu_api_key = [], baidu_secret_key = [], env_RAPIDAPI_KEY = [],
       env_GOOGLE_API_KEY = [], env_GOOGLE_CX = [], env_BAIDU_API_KEY = [],
       env_BAIDU_SECRET_KEY = [], timeout = 10, cache_duration = 60 \<rparr>"

definition world_down :: world where
  "world_down = \<lparr> net = (\<lambda>c. Raises), time_lookup = 0, time_store = 0, today = ''2025-04-14'' \<rparr>"

definition request_climate :: request where
  "request_climate =
     \<lparr> req_query = Some ''climate policy'', req_language = Some ''en'',
       req_max_results = Some (PNum (PInt 5)), req_sources = Some [''web''] \<rparr>"

text \<open>The doubles nearest to 0.1 and to 3600.1.\<close>

definition double_0_1 :: real where
  "double_0_1 = 3602879701896397 / 2 ^ 55"

definition double_3600_1 :: real where
  "double_3600_1 = 7916703622312755 / 2 ^ 41"

definition cfg_google :: config where
  "cfg_google =
     \<lparr> search_api = ''Google Search API'', google_api_key = ''key'', google_cx = ''cx'',
       baidu_api_key = [], baidu_secret_key = [], env_RAPIDAPI_KEY = [],
       env_GOOGLE_API_KEY = [], env_GOOGLE_CX = [], env_BAIDU_API_KEY = [],
       env_BAIDU_SECRET_KEY = [], timeout = 10, cache_duration = 60 \<rparr>"

definition cfg_baidu :: config where
  "cfg_baidu =
     \<lparr> search_api = ''Baidu Search API'', google_api_key = [], google_cx = [],
       baidu_api_key = ''key'', baidu_secret_key = ''secret'', env_RAPIDAPI_KEY = [],
       env_GOOGLE_API_KEY = [], env_GOOGLE_CX = [], env_BAIDU_API_KEY = [],
       env_BAIDU_SECRET_KEY = [], timeout = 10, cache_duration = 60 \<rparr>"

definition cfg_rapid :: config where
  "cfg_rapid =
     \<lparr> search_api = ''Free Search API'', google_api_key = [], google_cx = [],
       baidu_api_key = [], baidu_secret_key = [], env_RAPIDAPI_KEY = ''key'',
       env_GOOGLE_API_KEY = [], env_GOOGLE_CX = [], env_BAIDU_API_KEY = [],
       env_BAIDU_SECRET_KEY = [], timeout = 10, cache_duration = 60 \<rparr>"

definition world_reply :: "json \<Rightarrow> world" where
  "world_reply body =
     \<lparr> net = (\<lambda>c. Reply 200 [] (Some body)), time_lookup = 0, time_store = 0,
       today = ''2025-04-14'' \<rparr>"

definition eleven_items :: json where
  "eleven_items = JObj [(''items'', JArr (replicate 11 (JObj [(''title'', JStr ''t'')])))]"

definition three_items :: json where
  "three_items =
     JObj [(''items'',
            JArr [JObj [(''title'', JStr ''t1''), (''link'', JStr ''https://1.example'')],
                  JObj [(''title'', JStr ''t2''), (''link'', JStr ''https://2.example'')],
                  JObj [(''title'', JStr ''t3''), (''link'', JStr ''https://3.example'')]])]"

definition two_topics :: json where
  "two_topics =
     JObj [(''RelatedTopics'',
            JArr [JObj [(''Text'', JStr ''A - a''), (''FirstURL'', JStr ''https://a.example'')],
                  JObj [(''Text'', JStr ''B - b''), (''FirstURL'', JStr ''https://b.example'')]])]"

definition token_and_results :: json where
  "token_and_results =
     JObj [(''access_token'', JStr ''tok''),
           (''result'', JArr [JObj [(''title'', JStr ''t'')]])]"

definition request_ab_c :: request where
  "request_ab_c =
     \<lparr> req_query = Some ''a:b'', req_language = Some ''c'', req_max_results = None,
       req_sources = None \<rparr>"

definition request_a_bc :: request where
  "request_a_bc =
     \<lparr> req_query = Some ''a'', req_language = Some ''b:c'', req_max_results = None,
       req_sources = None \<rparr>"

section \<open>Properties\<close>

subsection \<open>Rounding to a double\<close>

lemma round_half_even_ge: "of_int n \<le> t \<Longrightarrow> n \<le> round_half_even t"
proof -
  assume "of_int n \<le> t"
  then have "n \<le> \<lfloor>t\<rfloor>" by (simp add: le_floor_iff)
  moreover have "\<lfloor>t\<rfloor> \<le> round_half_even t" by (simp add: round_half_even_def)
  ultimately show ?thesis by simp
qed

lemma round_half_even_int: "round_half_even (of_int n) = n"
  by (simp add: round_half_even_def)

lemma double_ulp_pos: "0 < double_ulp x"
  by (simp add: double_ulp_def)

lemma two_powr_int: "(2::real) powr real_of_int j = 2 powi j"
  by (rule powr_real_of_int') simp_all

lemma floor_log2_binade:
  assumes "(2::real) powi k \<le> y" and "y < 2 powi (k + 1)"
  shows "\<lfloor>log 2 y\<rfloor> = k"
proof -
  have "(0::real) < 2 powi k" by simp
  with assms(1) have pos: "0 < y" by linarith
  have a: "(2::real) powr real_of_int k \<le> y" using assms(1) by (simp only: two_powr_int)
  have b: "y < (2::real) powr real_of_int (k + 1)" using assms(2) by (simp only: two_powr_int)
  from pos a b show ?thesis
    by (subst floor_log_eq_powr_iff) simp_all
qed

lemma double_ulp_binade:
  assumes "2 powi k \<le> \<bar>x\<bar>" and "\<bar>x\<bar> < 2 powi (k + 1)" and "- 1022 \<le> k"
  shows "double_ulp x = 2 powi (k - 52)"
  using floor_log2_binade [OF assms(1,2)] assms(3) by (simp add: double_ulp_def)

lemma round_double_binade:
  assumes "2 powi k \<le> \<bar>x\<bar>" and "\<bar>x\<bar> < 2 powi (k + 1)" and "- 1022 \<le> k"
  shows "round_double x = of_int (round_half_even (x / 2 powi (k - 52))) * 2 powi (k - 52)"
proof -
  have "(0::real) < 2 powi k" by simp
  with assms(1) have "0 < \<bar>x\<bar>" by linarith
  then have "x \<noteq> 0" by simp
  then show ?thesis by (simp add: round_double_def double_ulp_binade [OF assms])
qed

lemma double_ulp_exponent:
  assumes "x \<noteq> 0"
  shows "\<exists>e. double_ulp x = 2 powi (e - 52) \<and> - 1022 \<le> e
    \<and> (e \<noteq> - 1022 \<longrightarrow> 2 powi e \<le> \<bar>x\<bar>)"
proof -
  define e where "e = max \<lfloor>log 2 \<bar>x\<bar>\<rfloor> (- 1022)"
  have u: "double_ulp x = 2 powi (e - 52)" by (simp add: double_ulp_def e_def)
  have lo: "- 1022 \<le> e" by (simp add: e_def)
  have "2 powi e \<le> \<bar>x\<bar>" if "e \<noteq> - 1022"
  proof -
    from that have "\<lfloor>log 2 \<bar>x\<bar>\<rfloor> = e" by (simp add: e_def max_def split: if_splits)
    with assms have "(2::real) powr (real_of_int e) \<le> \<bar>x\<bar>"
      using floor_log_eq_powr_iff [of "\<bar>x\<bar>" 2 e] by simp
    then show ?thesis by (simp only: two_powr_int)
  qed
  with u lo show ?thesis by blast
qed

text \<open>
  Rounding never takes a value below an integer that it has reached, for integers that
  are doubles themselves.
\<close>

lemma round_double_ge_int:
  assumes "0 \<le> d" and "d \<le> 2 ^ 53" and "of_int d \<le> x"
  shows "of_int d \<le> round_double x"
proof (cases "x = 0")
  case True
  with assms show ?thesis by (simp add: round_double_def)
next
  case False
  with assms have xpos: "0 < x" by simp
  from double_ulp_exponent [OF False]
  obtain e where u: "double_ulp x = 2 powi (e - 52)" and lo: "- 1022 \<le> e"
    and pw: "e \<noteq> - 1022 \<Longrightarrow> 2 powi e \<le> \<bar>x\<bar>"
    by blast
  have upos: "0 < double_ulp x" by (rule double_ulp_pos)
  have rd: "round_double x = of_int (round_half_even (x / double_ulp x)) * double_ulp x"
    using False by (simp add: round_double_def)
  have scale: "of_int n * double_ulp x \<le> round_double x"
    if "of_int n \<le> x / double_ulp x" for n
  proof -
    from that have "n \<le> round_half_even (x / double_ulp x)" by (rule round_half_even_ge)
    then have "(of_int n :: real) \<le> of_int (round_half_even (x / double_ulp x))"
      by (simp only: of_int_le_iff)
    then have "of_int n * double_ulp x
        \<le> of_int (round_half_even (x / double_ulp x)) * double_ulp x"
      using upos by (intro mult_right_mono) simp_all
    then show ?thesis by (simp only: rd)
  qed
  show ?thesis
  proof (cases "e \<le> 52")
    case True
    then have "52 - e = int (nat (52 - e))" by simp
    then have "(2::real) powi (52 - e) = 2 ^ nat (52 - e)"
      by (metis power_int_of_nat)
    moreover have "double_ulp x * 2 powi (52 - e) = 1"
      unfolding u by (simp flip: power_int_add)
    ultimately have inv: "double_ulp x * 2 ^ nat (52 - e) = 1" by simp
    have "of_int (d * 2 ^ nat (52 - e)) * double_ulp x = of_int d"
      using inv by (simp add: mult.assoc mult.commute)
    moreover have "of_int (d * 2 ^ nat (52 - e)) \<le> x / double_ulp x"
    proof -
      have "of_int d * (double_ulp x * 2 ^ nat (52 - e)) \<le> x * 1"
        using assms(3) inv by simp
      then have "of_int (d * 2 ^ nat (52 - e)) * double_ulp x \<le> x"
        by (simp add: mult_ac)
      with upos show ?thesis by (simp add: pos_le_divide_eq)
    qed
    ultimately show ?thesis using scale by metis
  next
    case large: False
    then have "e \<noteq> - 1022" by simp
    from pw [OF this] xpos have xe: "2 powi e \<le> x" by simp
    have "(2::real) powi (52 + (e - 52)) = 2 powi 52 * 2 powi (e - 52)"
      by (rule power_int_add) simp
    then have ue: "2 powi e = (2 ^ 52 :: real) * double_ulp x"
      by (simp add: u)
    with xe upos have "of_int (2 ^ 52) \<le> x / double_ulp x"
      by (simp add: pos_le_divide_eq)
    from scale [OF this] ue have "2 powi e \<le> round_double x" by simp
    moreover have "(2::real) powi 53 \<le> 2 powi e"
      using large by (intro power_int_increasing) simp_all
    moreover have "(of_int d :: real) \<le> 2 powi 53"
    proof -
      have "(of_int d :: real) \<le> of_int (2 ^ 53)" using assms(2) by (simp only: of_int_le_iff)
      then show ?thesis by simp
    qed
    ultimately show ?thesis by linarith
  qed
qed

lemma round_double_zero: "round_double 0 = 0"
  by (simp add: round_double_def)

lemma round_double_one: "round_double 1 = 1"
proof -
  have "round_double 1 = of_int (round_half_even (1 / 2 powi (0 - 52))) * 2 powi (0 - 52)"
    by (rule round_double_binade) simp_all
  also have "(1::real) / 2 powi (0 - 52) = of_int (2 ^ 52)"
    by (simp add: power_int_minus)
  finally show ?thesis
    by (simp only: round_half_even_int) (simp add: power_int_minus)
qed

text \<open>
  The double 3600.1 minus the double 0.1 is less than 3600, and rounds to 3600.
\<close>

lemma boundary_age: "double_3600_1 - double_0_1 < 3600"
  by (simp add: double_3600_1_def double_0_1_def)

lemma boundary_rounded: "round_double (double_3600_1 - double_0_1) = 3600"
proof -
  have v: "double_3600_1 - double_0_1 = 129703669268270281523 / 2 ^ 55"
    by (simp add: double_3600_1_def double_0_1_def)
  have "round_double (129703669268270281523 / 2 ^ 55)
      = of_int (round_half_even ((129703669268270281523 / 2 ^ 55) / 2 powi (11 - 52)))
        * 2 powi (11 - 52)"
    by (rule round_double_binade) simp_all
  also have "(129703669268270281523 / 2 ^ 55) / 2 powi (11 - 52)
      = (129703669268270281523 / 16384 :: real)"
    by (simp add: power_int_minus)
  also have "round_half_even (129703669268270281523 / 16384) = 7916483719987200"
    by (simp add: round_half_even_def)
  finally show ?thesis by (simp add: v power_int_minus)
qed

subsection \<open>Every adapter returns a well-formed envelope\<close>

lemma envelope_fallback: "envelope q (search_fallback q lang m d)"
  by (simp add: envelope_def search_fallback_def)

lemma envelope_free: "envelope q (fst (search_free_api cfg w q lang m))"
  using envelope_fallback [of q lang m "today w"]
  by (simp add: search_free_api_def envelope_def split: http_reply.split option.split)

lemma envelope_google: "envelope q (fst (search_google_api cfg w q lang m))"
  using envelope_fallback [of q lang m "today w"]
  by (simp add: search_google_api_def envelope_def split: http_reply.split option.split)

lemma envelope_baidu_search: "envelope q (fst (baidu_search cfg w q lang m tb))"
  using envelope_fallback [of q lang m "today w"]
  by (simp add: baidu_search_def envelope_def split: http_reply.split option.split json.split)

lemma envelope_baidu: "envelope q (fst (search_baidu_api cfg w q lang m))"
  using envelope_fallback [of q lang m "today w"] envelope_baidu_search [of q cfg w lang m]
  by (simp add: search_baidu_api_def split: http_reply.split option.split)

lemma envelope_dispatch: "envelope q (fst (dispatch cfg w q lang m))"
  by (simp add: dispatch_def envelope_free envelope_google envelope_baidu)

lemma envelope_status: "envelope q r \<Longrightarrow> status r = ''success''"
  by (auto simp: envelope_def)

lemma envelope_count: "envelope q r \<Longrightarrow> results_count r = int (length (results r))"
  by (auto simp: envelope_def)

text \<open>The same for a \<^verbatim>\<open>max_results\<close> of any type, where the adapter returns.\<close>

lemma envelope_fallback_any: "envelope_or_error q (search_fallback_any q lang mv d)"
  by (simp add: envelope_or_error_def envelope_def search_fallback_any_def split: option.split)

lemma envelope_free_any: "envelope_or_error q (fst (search_free_api_any cfg w q lang mv))"
  using envelope_fallback_any [of q lang mv "today w"]
  by (simp add: search_free_api_any_def envelope_or_error_def envelope_def
      split: http_reply.split option.split)

lemma envelope_google_any: "envelope_or_error q (fst (search_google_api_any cfg w q lang mv))"
  using envelope_fallback_any [of q lang mv "today w"]
  by (simp add: search_google_api_any_def envelope_or_error_def envelope_def
      split: http_reply.split option.split)

lemma envelope_baidu_search_any:
  "envelope_or_error q (fst (baidu_search_any cfg w q lang mv tb))"
  using envelope_fallback_any [of q lang mv "today w"]
  by (simp add: baidu_search_any_def envelope_or_error_def envelope_def
      split: http_reply.split option.split json.split)

lemma envelope_baidu_any: "envelope_or_error q (fst (search_baidu_api_any cfg w q lang mv))"
  using envelope_fallback_any [of q lang mv "today w"]
    envelope_baidu_search_any [of q cfg w lang mv]
  by (simp add: search_baidu_api_any_def split: http_reply.split option.split)

lemma envelope_dispatch_any: "envelope_or_error q (fst (dispatch_any cfg w q lang mv))"
  by (simp add: dispatch_any_def envelope_free_any envelope_google_any envelope_baidu_any)

subsection \<open>On an integer the two sets of definitions agree\<close>

lemma search_fallback_any_int:
  "search_fallback_any q lang (PNum (PInt m)) d = Inr (search_fallback q lang m d)"
  by (simp add: search_fallback_any_def search_fallback_def min_def)

lemma free_results_any_int:
  "free_results_any lang (PNum (PInt m)) d data = free_results lang m d data"
  by (cases data) (simp_all add: free_results_any_def free_results_def)

lemma search_free_api_any_int:
  "search_free_api_any cfg w q lang (PNum (PInt m)) = apfst Inr (search_free_api cfg w q lang m)"
  by (simp add: search_free_api_any_def search_free_api_def search_fallback_any_int
      free_results_any_int split: http_reply.split option.split)

lemma google_call_any_int:
  "google_call_any cfg q lang (JNum (min m 10)) = google_call cfg q lang m"
  by (simp add: google_call_any_def google_call_def)

lemma py_min_10_int: "py_min_10 (PNum (PInt m)) = Some (PInt (min m 10))"
  by (simp add: min_def)

lemma search_google_api_any_int:
  "search_google_api_any cfg w q lang (PNum (PInt m))
     = apfst Inr (search_google_api cfg w q lang m)"
  by (simp add: search_google_api_any_def search_google_api_def search_fallback_any_int
      py_min_10_int google_call_any_int del: py_min_10.simps
      split: http_reply.split option.split)

lemma baidu_call_any_int:
  "baidu_call_any cfg q (JNum (min m 10)) tok = baidu_call cfg q m tok"
  by (simp add: baidu_call_any_def baidu_call_def)

lemma baidu_search_any_int:
  "baidu_search_any cfg w q lang (PNum (PInt m)) tb = apfst Inr (baidu_search cfg w q lang m tb)"
  by (simp add: baidu_search_any_def baidu_search_def search_fallback_any_int
      py_min_10_int baidu_call_any_int del: py_min_10.simps
      split: http_reply.split option.split json.split)

lemma search_baidu_api_any_int:
  "search_baidu_api_any cfg w q lang (PNum (PInt m))
     = apfst Inr (search_baidu_api cfg w q lang m)"
  by (simp add: search_baidu_api_any_def search_baidu_api_def search_fallback_any_int
      baidu_search_any_int split: http_reply.split option.split)

lemma dispatch_any_int:
  "dispatch_any cfg w q lang (PNum (PInt m)) = apfst Inr (dispatch cfg w q lang m)"
  by (simp add: dispatch_any_def dispatch_def search_free_api_any_int
      search_google_api_any_int search_baidu_api_any_int)

lemma cache_key_any_int: "cache_key_any cfg q lang (PNum (PInt m)) = cache_key cfg q lang m"
  by (simp add: cache_key_any_def cache_key_def)

lemma perform_search_any_int:
  "perform_search_any cfg w c q lang srcs (PNum (PInt m))
     = apfst Inr (perform_search cfg w c q lang srcs m)"
  by (simp add: perform_search_any_def perform_search_def cache_key_any_int dispatch_any_int
      split: prod.split option.split)

text \<open>
  The request handler on an integer \<^verbatim>\<open>max_results\<close>, given or defaulted.
\<close>

lemma api_search_endpoint_int:
  assumes "q \<noteq> []"
    and "req_max_results rd = None \<and> m = 10 \<or> req_max_results rd = Some (PNum (PInt m))"
  shows "api_search_endpoint cfg w c (rd\<lparr>req_query := Some q\<rparr>)
     = apfst Inr (perform_search cfg w c q
         (case req_language rd of None \<Rightarrow> ''en'' | Some v \<Rightarrow> v)
         (case req_sources rd of None \<Rightarrow> Some [''web''] | Some v \<Rightarrow> Some v) m)"
  using assms by (auto simp: api_search_endpoint_def Let_def perform_search_any_int)

subsection \<open>The cache holds well-formed envelopes only\<close>

lemma get_from_cache_Some:
  "(fst (get_from_cache cfg now c key) = Some data) =
     (\<exists>ts. c key = Some (ts, data)
        \<and> round_double (now - ts) < of_int (cache_duration cfg * 60))"
  by (auto simp: get_from_cache_def split: option.splits)

lemma get_from_cache_snd: "snd (get_from_cache cfg now c key) = c"
  by (simp add: get_from_cache_def split: option.splits)

lemma perform_search_eq:
  "perform_search cfg w c q lang srcs m =
     (case fst (get_from_cache cfg (time_lookup w) c (cache_key cfg q lang m)) of
        Some d \<Rightarrow> (d, c, [CacheRead (cache_key cfg q lang m)])
      | None \<Rightarrow>
          (fst (dispatch cfg w q lang m),
           c(cache_key cfg q lang m \<mapsto> (time_store w, fst (dispatch cfg w q lang m))),
           CacheRead (cache_key cfg q lang m) # map HttpCall (snd (dispatch cfg w q lang m))
             @ [CacheWrite (cache_key cfg q lang m)]))"
  by (simp add: perform_search_def get_from_cache_def save_to_cache_def
      split: option.split prod.split)

lemma perform_search_envelope:
  assumes "cache_inv c"
  shows "\<exists>q'. envelope q' (fst (perform_search cfg w c q lang srcs m))"
proof (cases "fst (get_from_cache cfg (time_lookup w) c (cache_key cfg q lang m))")
  case None
  then have "fst (perform_search cfg w c q lang srcs m) = fst (dispatch cfg w q lang m)"
    by (simp add: perform_search_eq)
  then show ?thesis using envelope_dispatch by metis
next
  case (Some d)
  then have r: "fst (perform_search cfg w c q lang srcs m) = d"
    by (simp add: perform_search_eq)
  from Some obtain ts where "c (cache_key cfg q lang m) = Some (ts, d)"
    by (auto simp: get_from_cache_Some)
  with assms r show ?thesis by (auto simp: cache_inv_def)
qed

lemma perform_search_cache_inv:
  assumes "cache_inv c"
  shows "cache_inv (fst (snd (perform_search cfg w c q lang srcs m)))"
proof (cases "fst (get_from_cache cfg (time_lookup w) c (cache_key cfg q lang m))")
  case None
  then have "fst (snd (perform_search cfg w c q lang srcs m)) =
      c(cache_key cfg q lang m \<mapsto> (time_store w, fst (dispatch cfg w q lang m)))"
    by (simp add: perform_search_eq)
  with assms envelope_dispatch [of q cfg w lang m] show ?thesis
    by (auto simp: cache_inv_def)
next
  case (Some d)
  then have "fst (snd (perform_search cfg w c q lang srcs m)) = c"
    by (simp add: perform_search_eq)
  with assms show ?thesis by simp
qed

lemma perform_search_any_eq:
  "perform_search_any cfg w c q lang srcs mv =
     (case fst (get_from_cache cfg (time_lookup w) c (cache_key_any cfg q lang mv)) of
        Some d \<Rightarrow> (Inr d, c, [CacheRead (cache_key_any cfg q lang mv)])
      | None \<Rightarrow>
          (case fst (dispatch_any cfg w q lang mv) of
             Inl e \<Rightarrow>
               (Inl e, c,
                CacheRead (cache_key_any cfg q lang mv)
                  # map HttpCall (snd (dispatch_any cfg w q lang mv)))
           | Inr r \<Rightarrow>
               (Inr r, c(cache_key_any cfg q lang mv \<mapsto> (time_store w, r)),
                CacheRead (cache_key_any cfg q lang mv)
                  # map HttpCall (snd (dispatch_any cfg w q lang mv))
                  @ [CacheWrite (cache_key_any cfg q lang mv)])))"
  by (simp add: perform_search_any_def get_from_cache_def save_to_cache_def
      split: option.split prod.split sum.split)

lemma perform_search_any_cache_inv:
  assumes "cache_inv c"
  shows "cache_inv (fst (snd (perform_search_any cfg w c q lang srcs mv)))"
proof (cases "fst (get_from_cache cfg (time_lookup w) c (cache_key_any cfg q lang mv))")
  case (Some d)
  then have "fst (snd (perform_search_any cfg w c q lang srcs mv)) = c"
    by (simp add: perform_search_any_eq)
  with assms show ?thesis by simp
next
  case None
  show ?thesis
  proof (cases "fst (dispatch_any cfg w q lang mv)")
    case (Inl e)
    with None have "fst (snd (perform_search_any cfg w c q lang srcs mv)) = c"
      by (simp add: perform_search_any_eq)
    with assms show ?thesis by simp
  next
    case (Inr r)
    with None have "fst (snd (perform_search_any cfg w c q lang srcs mv)) =
        c(cache_key_any cfg q lang mv \<mapsto> (time_store w, r))"
      by (simp add: perform_search_any_eq)
    moreover from Inr envelope_dispatch_any [of q cfg w lang mv] have "envelope q r"
      by (simp add: envelope_or_error_def)
    ultimately show ?thesis using assms by (auto simp: cache_inv_def)
  qed
qed

lemma api_cache_inv:
  "cache_inv c \<Longrightarrow> cache_inv (fst (snd (api_search_endpoint cfg w c rd)))"
  by (simp add: api_search_endpoint_def Let_def perform_search_any_cache_inv)

lemma apply_operation_cache_inv: "cache_inv c \<Longrightarrow> cache_inv (apply_operation c op)"
  by (cases op) (simp_all add: api_cache_inv perform_search_cache_inv)

lemma foldl_cache_inv: "cache_inv c \<Longrightarrow> cache_inv (foldl apply_operation c ops)"
  by (induction ops arbitrary: c) (simp_all add: apply_operation_cache_inv)

lemma cache_inv_empty: "cache_inv Map.empty"
  by (simp add: cache_inv_def)

lemma session_cache_inv: "cache_inv (session_cache ops)"
  unfolding session_cache_def by (rule foldl_cache_inv [OF cache_inv_empty])

subsection \<open>The success envelope\<close>

text \<open>
  Claim C1, as amended. For every non-empty query string and every \<^verbatim>\<open>max_results\<close> that is
  an integer or is left out of the request, the request handler returns, and the
  dispatcher returns, an envelope whose status is \<open>success\<close>, whatever the selected provider,
  its credentials and the outcome of its calls (all of \<open>cfg\<close> and \<open>w\<close>), and whatever the
  session did before (all of \<open>ops\<close>, so a cache hit included); the mock fallback that every
  failure path ends in returns a success envelope.
\<close>

theorem search_returns_success:
  "q \<noteq> [] \<Longrightarrow>
   req_max_results rd = None \<or> req_max_results rd = Some (PNum (PInt m)) \<Longrightarrow>
     (\<exists>r. fst (api_search_endpoint cfg w (session_cache ops) (rd\<lparr>req_query := Some q\<rparr>)) = Inr r
          \<and> status r = ''success'')
     \<and> status (fst (perform_search cfg w (session_cache ops) q lang srcs k)) = ''success''
     \<and> status (search_fallback q lang k date) = ''success''"
proof -
  assume q: "q \<noteq> []"
    and m: "req_max_results rd = None \<or> req_max_results rd = Some (PNum (PInt m))"
  have p: "status (fst (perform_search cfg w (session_cache ops) q l s n)) = ''success''"
    for l s n
    using perform_search_envelope [OF session_cache_inv] envelope_status by blast
  from m obtain n where
    "req_max_results rd = None \<and> n = 10 \<or> req_max_results rd = Some (PNum (PInt n))"
    by blast
  from api_search_endpoint_int [OF q this]
  have "fst (api_search_endpoint cfg w (session_cache ops) (rd\<lparr>req_query := Some q\<rparr>))
      = Inr (fst (perform_search cfg w (session_cache ops) q
          (case req_language rd of None \<Rightarrow> ''en'' | Some v \<Rightarrow> v)
          (case req_sources rd of None \<Rightarrow> Some [''web''] | Some v \<Rightarrow> Some v) n))"
    by simp
  with p have "\<exists>r. fst (api_search_endpoint cfg w (session_cache ops) (rd\<lparr>req_query := Some q\<rparr>))
      = Inr r \<and> status r = ''success''"
    by blast
  moreover have "status (search_fallback q lang k date) = ''success''"
    using envelope_fallback envelope_status by blast
  ultimately show ?thesis using p by blast
qed

theorem search_returns_success_witness:
  "''climate policy'' \<noteq> []
   \<and> req_max_results request_climate = Some (PNum (PInt 5))
   \<and> (\<exists>r. fst (api_search_endpoint cfg_free world_down
              (session_cache [Endpoint cfg_free world_down request_climate]) request_climate)
            = Inr r
          \<and> status r = ''success'')"
proof -
  have a: "''climate policy'' \<noteq> []" by simp
  have b: "req_max_results request_climate = Some (PNum (PInt 5))"
    by (simp add: request_climate_def)
  have c: "request_climate\<lparr>req_query := Some ''climate policy''\<rparr> = request_climate"
    by (simp add: request_climate_def)
  from search_returns_success [OF a disjI2 [OF b], of cfg_free world_down
      "[Endpoint cfg_free world_down request_climate]"] a b c
  show ?thesis by simp
qed

text \<open>
  The claim as stated puts no condition on \<^verbatim>\<open>max_results\<close>, and the handler passes on
  whatever the body holds. With the string \<open>5\<close>, or with \<^verbatim>\<open>null\<close>, the mock generator's
  \<^verbatim>\<open>min(max_results, 10)\<close> raises TypeError, and the handler raises instead of returning an
  envelope.
\<close>

theorem search_returns_success_counterexample:
  "req_query (request_climate\<lparr>req_max_results := Some (PStr ''5'')\<rparr>) = Some ''climate policy''
   \<and> fst (api_search_endpoint cfg_free world_down Map.empty
         (request_climate\<lparr>req_max_results := Some (PStr ''5'')\<rparr>)) = Inl TypeError
   \<and> fst (api_search_endpoint cfg_free world_down Map.empty
         (request_climate\<lparr>req_max_results := Some PNone\<rparr>)) = Inl TypeError"
  by (simp add: api_search_endpoint_def request_climate_def Let_def perform_search_any_eq
      get_from_cache_def dispatch_any_def search_free_api_any_def search_fallback_any_def
      cfg_free_def world_down_def)

lemma api_search_endpoint_envelope:
  assumes "cache_inv c" and "fst (api_search_endpoint cfg w c rd) = Inr r"
  shows "r = ErrorResponse ''error'' ''Query parameter is required'' \<or> (\<exists>q. envelope q r)"
proof (cases "(case req_query rd of None \<Rightarrow> [] | Some v \<Rightarrow> v) = []")
  case True
  with assms(2) show ?thesis by (simp add: api_search_endpoint_def)
next
  case False
  define q where "q = (case req_query rd of None \<Rightarrow> [] | Some v \<Rightarrow> v)"
  define lang where "lang = (case req_language rd of None \<Rightarrow> ''en'' | Some v \<Rightarrow> v)"
  define mv where "mv = (case req_max_results rd of None \<Rightarrow> PNum (PInt 10) | Some v \<Rightarrow> v)"
  define srcs where "srcs = (case req_sources rd of None \<Rightarrow> Some [''web''] | Some v \<Rightarrow> Some v)"
  from False assms(2) have r: "fst (perform_search_any cfg w c q lang srcs mv) = Inr r"
    by (simp add: api_search_endpoint_def Let_def q_def lang_def mv_def srcs_def)
  show ?thesis
  proof (cases "fst (get_from_cache cfg (time_lookup w) c (cache_key_any cfg q lang mv))")
    case (Some d)
    with r have "d = r" by (simp add: perform_search_any_eq)
    with Some obtain ts where "c (cache_key_any cfg q lang mv) = Some (ts, r)"
      by (auto simp: get_from_cache_Some)
    with assms(1) show ?thesis by (auto simp: cache_inv_def)
  next
    case None
    with r have "fst (dispatch_any cfg w q lang mv) = Inr r"
      by (simp add: perform_search_any_eq split: sum.splits)
    with envelope_dispatch_any [of q cfg w lang mv] have "envelope q r"
      by (simp add: envelope_or_error_def)
    then show ?thesis by blast
  qed
qed

text \<open>
  Claim C2. In the search envelope of every path, the mock fallback, the generic, the
  commercial and the regional adapter, and the dispatcher on any cache a session can
  reach (a hit or a miss), \<open>results_count\<close> is the length of \<open>results\<close>; so it is in every
  success envelope the request handler returns, whatever the type of \<^verbatim>\<open>max_results\<close>.
\<close>

theorem results_count_is_length:
  "results_count (search_fallback q lang m date)
       = int (length (results (search_fallback q lang m date)))
   \<and> results_count (fst (search_free_api cfg w q lang m))
       = int (length (results (fst (search_free_api cfg w q lang m))))
   \<and> results_count (fst (search_google_api cfg w q lang m))
       = int (length (results (fst (search_google_api cfg w q lang m))))
   \<and> results_count (fst (search_baidu_api cfg w q lang m))
       = int (length (results (fst (search_baidu_api cfg w q lang m))))
   \<and> results_count (fst (perform_search cfg w (session_cache ops) q lang srcs m))
       = int (length (results (fst (perform_search cfg w (session_cache ops) q lang srcs m))))
   \<and> (fst (api_search_endpoint cfg w (session_cache ops) rd) = Inr r \<and> status r = ''success''
        \<longrightarrow> results_count r = int (length (results r)))"
proof -
  obtain q' where "envelope q' (fst (perform_search cfg w (session_cache ops) q lang srcs m))"
    using perform_search_envelope [OF session_cache_inv] by blast
  then have "results_count (fst (perform_search cfg w (session_cache ops) q lang srcs m))
       = int (length (results (fst (perform_search cfg w (session_cache ops) q lang srcs m))))"
    by (rule envelope_count)
  moreover have "results_count r = int (length (results r))"
    if "fst (api_search_endpoint cfg w (session_cache ops) rd) = Inr r"
      and "status r = ''success''"
  proof -
    from api_search_endpoint_envelope [OF session_cache_inv that(1)] that(2)
    obtain q'' where "envelope q'' r" by auto
    then show ?thesis by (rule envelope_count)
  qed
  ultimately show ?thesis
    by (simp add: envelope_count [OF envelope_fallback] envelope_count [OF envelope_free]
        envelope_count [OF envelope_google] envelope_count [OF envelope_baidu])
qed

theorem results_count_is_length_witness:
  "fst (api_search_endpoint cfg_free world_down (session_cache [])
         (request_climate\<lparr>req_max_results := Some (PNum (PBool True))\<rparr>))
     = Inr (SearchResponse ''success'' ''climate policy'' 1 ''0.1s''
         [mock_record ''climate policy'' ''en'' ''2025-04-14'' 0])
   \<and> status (SearchResponse ''success'' ''climate policy'' 1 ''0.1s''
         [mock_record ''climate policy'' ''en'' ''2025-04-14'' 0]) = ''success''
   \<and> results_count (SearchResponse ''success'' ''climate policy'' 1 ''0.1s''
         [mock_record ''climate policy'' ''en'' ''2025-04-14'' 0])
     = int (length (results (SearchResponse ''success'' ''climate policy'' 1 ''0.1s''
         [mock_record ''climate policy'' ''en'' ''2025-04-14'' 0])))"
proof -
  have e: "fst (api_search_endpoint cfg_free world_down (session_cache [])
         (request_climate\<lparr>req_max_results := Some (PNum (PBool True))\<rparr>))
     = Inr (SearchResponse ''success'' ''climate policy'' 1 ''0.1s''
         [mock_record ''climate policy'' ''en'' ''2025-04-14'' 0])"
    by (simp add: session_cache_def api_search_endpoint_def request_climate_def Let_def
        perform_search_any_eq get_from_cache_def dispatch_any_def search_free_api_any_def
        search_fallback_any_def cfg_free_def world_down_def)
  have s: "status (SearchResponse ''success'' ''climate policy'' 1 ''0.1s''
         [mock_record ''climate policy'' ''en'' ''2025-04-14'' 0]) = ''success''"
    by simp
  have "fst (api_search_endpoint cfg_free world_down (session_cache [])
          (request_climate\<lparr>req_max_results := Some (PNum (PBool True))\<rparr>))
        = Inr (SearchResponse ''success'' ''climate policy'' 1 ''0.1s''
            [mock_record ''climate policy'' ''en'' ''2025-04-14'' 0])
      \<and> status (SearchResponse ''success'' ''climate policy'' 1 ''0.1s''
            [mock_record ''climate policy'' ''en'' ''2025-04-14'' 0]) = ''success''
      \<longrightarrow> results_count (SearchResponse ''success'' ''climate policy'' 1 ''0.1s''
            [mock_record ''climate policy'' ''en'' ''2025-04-14'' 0])
          = int (length (results (SearchResponse ''success'' ''climate policy'' 1 ''0.1s''
            [mock_record ''climate policy'' ''en'' ''2025-04-14'' 0])))"
    using results_count_is_length [where cfg = cfg_free and w = world_down and ops = "[]"
        and rd = "request_climate\<lparr>req_max_results := Some (PNum (PBool True))\<rparr>"
        and r = "SearchResponse ''success'' ''climate policy'' 1 ''0.1s''
           [mock_record ''climate policy'' ''en'' ''2025-04-14'' 0]"]
    by blast
  with e s show ?thesis by (simp only: simp_thms)
qed

subsection \<open>The empty query\<close>

text \<open>
  Claim C3. A request whose query is absent or empty gets exactly the error envelope with
  the message \<open>Query parameter is required\<close>; the call has no event, so no outbound HTTP
  call and no cache access, and the cache it leaves is the cache it found.
\<close>

theorem empty_query_rejected:
  "req_query rd = None \<or> req_query rd = Some [] \<Longrightarrow>
     api_search_endpoint cfg w c rd
       = (Inr (ErrorResponse ''error'' ''Query parameter is required''), c, [])"
  by (auto simp: api_search_endpoint_def)

theorem empty_query_rejected_witness:
  "req_query (request_climate\<lparr>req_query := Some []\<rparr>) = Some []
   \<and> api_search_endpoint cfg_free world_down Map.empty (request_climate\<lparr>req_query := Some []\<rparr>)
       = (Inr (ErrorResponse ''error'' ''Query parameter is required''), Map.empty, [])"
  using empty_query_rejected
    [of "request_climate\<lparr>req_query := Some []\<rparr>" cfg_free world_down Map.empty]
  by simp

text \<open>
  Claim C9. A request with no query key is handled as one whose query is the empty
  string: the handler returns the same response, cache and events for both, and the
  response is the error envelope.
\<close>

theorem absent_query_as_empty:
  "api_search_endpoint cfg w c (rd\<lparr>req_query := None\<rparr>)
     = api_search_endpoint cfg w c (rd\<lparr>req_query := Some []\<rparr>)
   \<and> fst (api_search_endpoint cfg w c (rd\<lparr>req_query := None\<rparr>))
     = Inr (ErrorResponse ''error'' ''Query parameter is required'')"
  by (simp add: api_search_endpoint_def)

subsection \<open>The cache\<close>

text \<open>
  Claim C4, as amended. A lookup returns the stored response exactly when the entry exists
  and the difference of the current time and its timestamp, as the double the program
  computes, is strictly less than the configured duration (in seconds,
  \<open>cache_duration * 60\<close>); otherwise it returns nothing; either way it leaves the cache as
  it was, a stale entry included. A store maps the key to the current time and the new
  response whatever was there before. For a duration within the bounds of the setting (0
  to 1440 minutes), what a lookup returns was stored less than the configured duration
  ago, in exact terms: a lookup never returns older data.
\<close>

theorem cache_lookup_store:
  "(fst (get_from_cache cfg now c key) = Some data)
      = (\<exists>ts. c key = Some (ts, data)
           \<and> round_double (now - ts) < of_int (cache_duration cfg) * 60)
   \<and> (0 \<le> cache_duration cfg \<and> cache_duration cfg \<le> 1440
        \<and> fst (get_from_cache cfg now c key) = Some data
      \<longrightarrow> (\<exists>ts. c key = Some (ts, data) \<and> now - ts < of_int (cache_duration cfg) * 60))
   \<and> (fst (get_from_cache cfg now c key) = None)
      = (c key = None
         \<or> (\<exists>ts d. c key = Some (ts, d)
               \<and> \<not> round_double (now - ts) < of_int (cache_duration cfg) * 60))
   \<and> snd (get_from_cache cfg now c key) = c
   \<and> save_to_cache now c key data = c(key \<mapsto> (now, data))"
proof -
  have hit: "(fst (get_from_cache cfg now c key) = Some data)
      = (\<exists>ts. c key = Some (ts, data)
           \<and> round_double (now - ts) < of_int (cache_duration cfg) * 60)"
    by (auto simp: get_from_cache_def split: option.splits)
  have fresh: "\<exists>ts. c key = Some (ts, data) \<and> now - ts < of_int (cache_duration cfg) * 60"
    if lo: "0 \<le> cache_duration cfg" and hi: "cache_duration cfg \<le> 1440"
      and h: "fst (get_from_cache cfg now c key) = Some data"
  proof -
    from h hit obtain ts where ts: "c key = Some (ts, data)"
      and r: "round_double (now - ts) < of_int (cache_duration cfg) * 60"
      by blast
    have "now - ts < of_int (cache_duration cfg * 60)"
    proof (rule ccontr)
      assume "\<not> now - ts < of_int (cache_duration cfg * 60)"
      then have "of_int (cache_duration cfg * 60) \<le> now - ts" by simp
      moreover from lo have "0 \<le> cache_duration cfg * 60" by simp
      moreover from hi have "cache_duration cfg * 60 \<le> 2 ^ 53" by simp
      ultimately have "of_int (cache_duration cfg * 60) \<le> round_double (now - ts)"
        by (intro round_double_ge_int)
      with r show False by simp
    qed
    with ts show ?thesis by auto
  qed
  have miss: "(fst (get_from_cache cfg now c key) = None)
      = (c key = None
         \<or> (\<exists>ts d. c key = Some (ts, d)
               \<and> \<not> round_double (now - ts) < of_int (cache_duration cfg) * 60))"
    by (auto simp: get_from_cache_def split: option.splits)
  have frame: "snd (get_from_cache cfg now c key) = c"
    by (rule get_from_cache_snd)
  have store: "save_to_cache now c key data = c(key \<mapsto> (now, data))"
    by (simp add: save_to_cache_def)
  from hit fresh miss frame store show ?thesis by blast
qed

theorem cache_lookup_store_witness:
  "0 \<le> cache_duration cfg_free \<and> cache_duration cfg_free \<le> 1440
   \<and> fst (get_from_cache cfg_free 1
         (Map.empty(''k'' \<mapsto> (0, search_fallback ''climate policy'' ''en'' 5 ''2025-04-14'')))
         ''k'')
     = Some (search_fallback ''climate policy'' ''en'' 5 ''2025-04-14'')
   \<and> (\<exists>ts. (Map.empty(''k'' \<mapsto> (0, search_fallback ''climate policy'' ''en'' 5 ''2025-04-14'')))
             ''k''
           = Some (ts, search_fallback ''climate policy'' ''en'' 5 ''2025-04-14'')
         \<and> (1::real) - ts < of_int (cache_duration cfg_free) * 60)"
proof -
  have d: "0 \<le> cache_duration cfg_free \<and> cache_duration cfg_free \<le> 1440"
    by (simp add: cfg_free_def)
  have h: "fst (get_from_cache cfg_free 1
         (Map.empty(''k'' \<mapsto> (0, search_fallback ''climate policy'' ''en'' 5 ''2025-04-14'')))
         ''k'')
     = Some (search_fallback ''climate policy'' ''en'' 5 ''2025-04-14'')"
    by (simp add: get_from_cache_def cfg_free_def round_double_one)
  have "0 \<le> cache_duration cfg_free \<and> cache_duration cfg_free \<le> 1440
        \<and> fst (get_from_cache cfg_free 1
              (Map.empty(''k'' \<mapsto>
                 (0, search_fallback ''climate policy'' ''en'' 5 ''2025-04-14'')))
              ''k'')
          = Some (search_fallback ''climate policy'' ''en'' 5 ''2025-04-14'')
      \<longrightarrow> (\<exists>ts. (Map.empty(''k'' \<mapsto>
                    (0, search_fallback ''climate policy'' ''en'' 5 ''2025-04-14'')))
                 ''k''
               = Some (ts, search_fallback ''climate policy'' ''en'' 5 ''2025-04-14'')
             \<and> (1::real) - ts < of_int (cache_duration cfg_free) * 60)"
    by (rule conjunct1 [OF conjunct2 [OF cache_lookup_store]])
  with d h show ?thesis by (simp only: simp_thms)
qed

text \<open>
  The claim as stated measures the age exactly. An entry stored at the double 0.1 and
  looked up at the double 3600.1 with a duration of 60 minutes is less than 3600 seconds
  old, yet the program's difference is the double 3600, which is not less than 3600: the
  lookup returns nothing.
\<close>

theorem cache_lookup_store_counterexample:
  "double_3600_1 - double_0_1 < of_int (cache_duration cfg_free) * 60
   \<and> fst (get_from_cache cfg_free double_3600_1
         (Map.empty(''k'' \<mapsto>
            (double_0_1, search_fallback ''climate policy'' ''en'' 5 ''2025-04-14'')))
         ''k'')
     = None"
  using boundary_age by (simp add: get_from_cache_def cfg_free_def boundary_rounded)

text \<open>
  Claim C10. After any sequence of operations, every entry of the cache holds a search
  envelope with status \<open>success\<close>, so a cache hit never has status \<open>error\<close>.
\<close>

theorem cache_holds_success_only:
  "(session_cache ops key = Some (ts, d) \<longrightarrow> (\<exists>q n p rs. d = SearchResponse ''success'' q n p rs))
   \<and> (fst (get_from_cache cfg now (session_cache ops) key) = Some d
        \<longrightarrow> status d = ''success'' \<and> status d \<noteq> ''error'')"
proof -
  have a: "\<exists>q n p rs. d' = SearchResponse ''success'' q n p rs"
    if "session_cache ops key = Some (t, d')" for t d'
  proof -
    from that session_cache_inv [of ops] obtain q where "envelope q d'"
      unfolding cache_inv_def by blast
    then show ?thesis unfolding envelope_def by blast
  qed
  have "status d = ''success'' \<and> status d \<noteq> ''error''"
    if "fst (get_from_cache cfg now (session_cache ops) key) = Some d"
  proof -
    from that obtain t where "session_cache ops key = Some (t, d)"
      by (auto simp: get_from_cache_Some)
    from a [OF this] show ?thesis by auto
  qed
  with a show ?thesis by blast
qed

theorem cache_holds_success_only_witness:
  "session_cache [Endpoint cfg_free world_down request_climate]
       (cache_key cfg_free ''climate policy'' ''en'' 5)
     = Some (0, search_fallback ''climate policy'' ''en'' 5 ''2025-04-14'')
   \<and> (\<exists>q n p rs. search_fallback ''climate policy'' ''en'' 5 ''2025-04-14''
         = SearchResponse ''success'' q n p rs)
   \<and> fst (get_from_cache cfg_free 1 (session_cache [Endpoint cfg_free world_down request_climate])
         (cache_key cfg_free ''climate policy'' ''en'' 5))
     = Some (search_fallback ''climate policy'' ''en'' 5 ''2025-04-14'')
   \<and> status (search_fallback ''climate policy'' ''en'' 5 ''2025-04-14'') = ''success''"
proof -
  have s: "session_cache [Endpoint cfg_free world_down request_climate]
       (cache_key cfg_free ''climate policy'' ''en'' 5)
     = Some (0, search_fallback ''climate policy'' ''en'' 5 ''2025-04-14'')"
    by (simp add: session_cache_def api_search_endpoint_def request_climate_def Let_def
        perform_search_any_int perform_search_eq get_from_cache_def dispatch_def
        search_free_api_def cfg_free_def world_down_def)
  have "cache_duration cfg_free = 60"
    by (simp add: cfg_free_def)
  with s have g: "fst (get_from_cache cfg_free 1
        (session_cache [Endpoint cfg_free world_down request_climate])
        (cache_key cfg_free ''climate policy'' ''en'' 5))
     = Some (search_fallback ''climate policy'' ''en'' 5 ''2025-04-14'')"
    by (simp add: get_from_cache_def round_double_one)
  from s g cache_holds_success_only [of "[Endpoint cfg_free world_down request_climate]"
      "cache_key cfg_free ''climate policy'' ''en'' 5" 0
      "search_fallback ''climate policy'' ''en'' 5 ''2025-04-14''" cfg_free 1]
  show ?thesis by blast
qed

subsection \<open>The mock generator\<close>

lemma str_int_digits:
  "map (\<lambda>i. str_int (int i + 1)) [0 ..< 10]
     = one_to_ten"
  by code_simp

lemma upt_take_ten: "n \<le> 10 \<Longrightarrow> [0 ..< n] = take n [0 ..< 10]"
  by (simp add: take_upt)

lemma mock_numbers:
  "map (\<lambda>i. str_int (int i + 1)) [0 ..< nat (min m 10)]
     = take (nat (min m 10)) one_to_ten"
proof -
  have "nat (min m 10) \<le> 10" by simp
  then have "[0 ..< nat (min m 10)] = take (nat (min m 10)) [0 ..< 10]"
    by (rule upt_take_ten)
  then have "map (\<lambda>i. str_int (int i + 1)) [0 ..< nat (min m 10)]
      = take (nat (min m 10)) (map (\<lambda>i. str_int (int i + 1)) [0 ..< 10])"
    by (simp add: take_map)
  then show ?thesis by (simp only: str_int_digits)
qed

lemma mock_titles:
  "map title (results (search_fallback q lang m date))
     = map (\<lambda>s. JStr (''Result '' @ s @ '' for '' @ [CHR 0x27] @ q @ [CHR 0x27]))
         (map (\<lambda>i. str_int (int i + 1)) [0 ..< nat (min m 10)])"
  by (simp add: search_fallback_def mock_record_def comp_def)

lemma mock_urls:
  "map url (results (search_fallback q lang m date))
     = map (\<lambda>s. JStr (''https://example.com/result'' @ s))
         (map (\<lambda>i. str_int (int i + 1)) [0 ..< nat (min m 10)])"
  by (simp add: search_fallback_def mock_record_def comp_def)

lemma mock_length: "length (results (search_fallback q lang m date)) = nat (min m 10)"
  by (simp add: search_fallback_def)

text \<open>
  Claim C5, as amended. For every query, language, date and \<open>max_results\<close> the mock
  generator returns \<open>max 0 (min max_results 10)\<close> records: none when \<open>max_results\<close> is
  negative. Their titles are \<open>Result 1 for 'q'\<close>, \<open>Result 2 for 'q'\<close>, ... and their URLs
  \<open>https://example.com/result1\<close>, ... in this order, each with credibility score 0.5 and
  source \<open>mock\<close>; titles and URLs depend on the query and \<open>max_results\<close> only, not on the
  language or the date.
\<close>

theorem mock_generator:
  "int (length (results (search_fallback q lang m date))) = max 0 (min m 10)
   \<and> map title (results (search_fallback q lang m date))
       = take (nat (min m 10))
           (map (\<lambda>i. JStr (''Result '' @ i @ '' for '' @ [CHR 0x27] @ q @ [CHR 0x27]))
              one_to_ten)
   \<and> map url (results (search_fallback q lang m date))
       = take (nat (min m 10))
           (map (\<lambda>i. JStr (''https://example.com/result'' @ i))
              one_to_ten)
   \<and> map credibility_score (results (search_fallback q lang m date))
       = replicate (nat (min m 10)) 0.5
   \<and> map source (results (search_fallback q lang m date)) = replicate (nat (min m 10)) ''mock''
   \<and> map title (results (search_fallback q lang' m date'))
       = map title (results (search_fallback q lang m date))
   \<and> map url (results (search_fallback q lang' m date'))
       = map url (results (search_fallback q lang m date))"
proof -
  have n: "int (length (results (search_fallback q lang m date))) = max 0 (min m 10)"
    by (simp add: mock_length)
  have t: "map title (results (search_fallback q l m d))
       = take (nat (min m 10))
           (map (\<lambda>i. JStr (''Result '' @ i @ '' for '' @ [CHR 0x27] @ q @ [CHR 0x27]))
              one_to_ten)" for l d
    unfolding mock_titles mock_numbers by (simp only: take_map)
  have u: "map url (results (search_fallback q l m d))
       = take (nat (min m 10))
           (map (\<lambda>i. JStr (''https://example.com/result'' @ i))
              one_to_ten)" for l d
    unfolding mock_urls mock_numbers by (simp only: take_map)
  have c: "map credibility_score (results (search_fallback q lang m date))
       = replicate (nat (min m 10)) 0.5"
    by (simp add: search_fallback_def mock_record_def comp_def map_replicate_const)
  have s: "map source (results (search_fallback q lang m date)) = replicate (nat (min m 10)) ''mock''"
    by (simp add: search_fallback_def mock_record_def comp_def map_replicate_const)
  from n t [of lang date] u [of lang date] c s t [of lang' date'] u [of lang' date']
  show ?thesis by (simp only:)
qed

text \<open>
  The claim as stated asks for \<open>min max_results 10\<close> records for every \<open>max_results\<close>; at
  \<open>max_results = -1\<close>, which the request handler passes on unchanged, the loop over
  \<^verbatim>\<open>range(-1)\<close> runs no turn.
\<close>

theorem mock_generator_counterexample:
  "int (length (results (search_fallback ''q'' ''en'' (- 1) ''2025-04-14''))) \<noteq> min (- 1) 10"
  by (simp add: search_fallback_def)

subsection \<open>Clamping\<close>

lemma collect_length: "collect f items = Some rs \<Longrightarrow> length rs = length items"
  by (induction items arbitrary: rs) (auto split: option.splits)

lemma free_topic_length: "free_topic lang date topic = Some rs \<Longrightarrow> length rs \<le> 1"
  by (auto simp: free_topic_def split: option.splits bool.splits json.splits if_splits)

lemma free_topics_length: "free_topics lang date topics = Some rs \<Longrightarrow> length rs \<le> length topics"
proof (induction topics arbitrary: rs)
  case Nil
  then show ?case by simp
next
  case (Cons topic topics)
  then obtain r rest where r: "free_topic lang date topic = Some r"
    and rest: "free_topics lang date topics = Some rest" and rs: "rs = r @ rest"
    by (auto split: option.splits)
  from free_topic_length [OF r] Cons.IH [OF rest] rs show ?case by simp
qed

lemma py_slice_to_length: "0 \<le> n \<Longrightarrow> length (py_slice_to xs n) \<le> nat n"
  by (simp add: py_slice_to_def)

lemma py_slice_iter_length: "0 \<le> n \<Longrightarrow> py_slice_iter v n = Some ts \<Longrightarrow> length ts \<le> nat n"
  by (cases v) (auto simp: py_slice_to_length)

lemma free_abstract_length: "length (free_abstract lang date kvs) \<le> 1"
  by (simp add: free_abstract_def)

lemma google_bound:
  assumes "served_items ''items'' (net w (google_call cfg q lang m)) \<le> 10"
  shows "length (results (fst (search_google_api cfg w q lang m))) \<le> 10"
proof (cases "\<exists>recs. fst (search_google_api cfg w q lang m)
    = SearchResponse ''success'' q (int (length recs)) ''1.0s'' recs
    \<and> (\<exists>code txt data items. net w (google_call cfg q lang m) = Reply 200 txt (Some data)
        \<and> reply_items ''items'' data = Some items \<and> length recs = length items)")
  case True
  then show ?thesis using assms by (auto simp: served_items_def)
next
  case False
  then have "fst (search_google_api cfg w q lang m) = search_fallback q lang m (today w)"
    by (auto simp: search_google_api_def google_results_def
        split: http_reply.splits option.splits if_splits dest: collect_length)
  then show ?thesis by (simp add: mock_length)
qed

lemma baidu_search_bound:
  assumes "\<forall>tok. served_items ''result'' (net w (baidu_call cfg q m tok)) \<le> 10"
  shows "length (results (fst (baidu_search cfg w q lang m tb))) \<le> 10"
proof (cases "\<exists>recs kvs txt data items. tb = JObj kvs
    \<and> fst (baidu_search cfg w q lang m tb)
        = SearchResponse ''success'' q (int (length recs)) ''1.0s'' recs
    \<and> net w (baidu_call cfg q m (dict_get kvs ''access_token'' JNull)) = Reply 200 txt (Some data)
    \<and> reply_items ''result'' data = Some items \<and> length recs = length items")
  case True
  then obtain recs kvs body_text data items where
    r: "fst (baidu_search cfg w q lang m tb)
        = SearchResponse ''success'' q (int (length recs)) ''1.0s'' recs"
    and n: "net w (baidu_call cfg q m (dict_get kvs ''access_token'' JNull))
        = Reply 200 body_text (Some data)"
    and i: "reply_items ''result'' data = Some items" and l: "length recs = length items"
    by blast
  from assms have "served_items ''result''
      (net w (baidu_call cfg q m (dict_get kvs ''access_token'' JNull))) \<le> 10" by blast
  with n i l have "length recs \<le> 10" by (simp add: served_items_def)
  with r show ?thesis by simp
next
  case False
  then have "fst (baidu_search cfg w q lang m tb) = search_fallback q lang m (today w)"
    by (auto simp: baidu_search_def baidu_results_def
        split: json.splits http_reply.splits option.splits if_splits dest: collect_length)
  then show ?thesis by (simp add: mock_length)
qed

lemma baidu_bound:
  assumes "\<forall>tok. served_items ''result'' (net w (baidu_call cfg q m tok)) \<le> 10"
  shows "length (results (fst (search_baidu_api cfg w q lang m))) \<le> 10"
proof -
  have "length (results (search_fallback q lang m (today w))) \<le> 10"
    by (simp add: mock_length)
  with baidu_search_bound [OF assms, of lang] show ?thesis
    by (simp add: search_baidu_api_def split: http_reply.split option.split)
qed

lemma free_topic_kind:
  "free_topic lang date topic = Some rs \<Longrightarrow>
     list_all (\<lambda>r. source r = ''duckduckgo'' \<and> credibility_score r = 0.7) rs"
  by (auto simp: free_topic_def split: option.splits bool.splits json.splits if_splits)

lemma free_topics_kind:
  "free_topics lang date topics = Some rs \<Longrightarrow>
     list_all (\<lambda>r. source r = ''duckduckgo'' \<and> credibility_score r = 0.7) rs"
proof (induction topics arbitrary: rs)
  case Nil
  then show ?case by simp
next
  case (Cons topic topics)
  then obtain r rest where r: "free_topic lang date topic = Some r"
    and rest: "free_topics lang date topics = Some rest" and rs: "rs = r @ rest"
    by (auto split: option.splits)
  from free_topic_kind [OF r] Cons.IH [OF rest] rs show ?case by simp
qed

lemma free_results_shape:
  assumes "1 \<le> m" and "free_results lang m date data = Some recs"
  shows "\<exists>kvs topics. data = JObj kvs \<and> recs = free_abstract lang date kvs @ topics
           \<and> length topics \<le> nat (m - 1)
           \<and> list_all (\<lambda>r. source r = ''duckduckgo'' \<and> credibility_score r = 0.7) topics"
proof -
  from assms(2) obtain kvs ts rs where d: "data = JObj kvs"
    and ts: "py_slice_iter (dict_get kvs ''RelatedTopics'' (JArr [])) (m - 1) = Some ts"
    and rs: "free_topics lang date ts = Some rs"
    and recs: "recs = free_abstract lang date kvs @ rs"
    by (auto simp: free_results_def split: json.splits option.splits)
  from assms(1) have "0 \<le> m - 1" by simp
  from py_slice_iter_length [OF this ts] free_topics_length [OF rs]
  have "length rs \<le> nat (m - 1)" by simp
  with d recs free_topics_kind [OF rs] show ?thesis by blast
qed

lemma free_api_paths:
  "fst (search_free_api cfg w q lang m) = search_fallback q lang m (today w)
   \<or> (\<exists>txt data recs. net w (free_call cfg q) = Reply 200 txt (Some data)
        \<and> free_results lang m (today w) data = Some recs
        \<and> results (fst (search_free_api cfg w q lang m)) = recs)"
  by (auto simp: search_free_api_def split: http_reply.splits option.splits)

lemma google_one_per_item:
  "fst (search_google_api cfg w q lang m) = search_fallback q lang m (today w)
   \<or> length (results (fst (search_google_api cfg w q lang m)))
       = served_items ''items'' (net w (google_call cfg q lang m))"
  by (auto simp: search_google_api_def google_results_def served_items_def
      split: http_reply.splits option.splits dest: collect_length)

lemma baidu_search_one_per_item:
  "fst (baidu_search cfg w q lang m tb) = search_fallback q lang m (today w)
   \<or> (\<exists>tok. length (results (fst (baidu_search cfg w q lang m tb)))
         = served_items ''result'' (net w (baidu_call cfg q m tok)))"
proof (cases tb)
  case (JObj kvs)
  have "fst (baidu_search cfg w q lang m (JObj kvs)) = search_fallback q lang m (today w)
     \<or> length (results (fst (baidu_search cfg w q lang m (JObj kvs))))
         = served_items ''result''
             (net w (baidu_call cfg q m (dict_get kvs ''access_token'' JNull)))"
    by (auto simp: baidu_search_def baidu_results_def served_items_def
        split: http_reply.splits option.splits dest: collect_length)
  with JObj show ?thesis by blast
qed (simp_all add: baidu_search_def)

lemma baidu_one_per_item:
  "fst (search_baidu_api cfg w q lang m) = search_fallback q lang m (today w)
   \<or> (\<exists>tok. length (results (fst (search_baidu_api cfg w q lang m)))
         = served_items ''result'' (net w (baidu_call cfg q m tok)))"
  using baidu_search_one_per_item [of cfg w q lang m]
  by (auto simp: search_baidu_api_def split: http_reply.splits option.splits)

text \<open>
  Claim C6, as amended. The commercial and the regional adapter ask the provider for
  \<open>min max_results 10\<close> items and build one record per item of the reply, without cutting
  the reply themselves: they return at most 10 results whenever the reply serves at most
  10 items, and on every fallback; unless they fall back, the number of their results is
  the number of items the reply serves. For \<open>max_results\<close> of at least 1 the generic adapter
  returns the mock results or, from a reply, the abstract record if there is one followed by
  at most \<open>max_results - 1\<close> related-topic records.
\<close>

theorem clamping:
  "(served_items ''items'' (net w (google_call cfg q lang m)) \<le> 10
      \<longrightarrow> length (results (fst (search_google_api cfg w q lang m))) \<le> 10)
   \<and> ((\<forall>tok. served_items ''result'' (net w (baidu_call cfg q m tok)) \<le> 10)
      \<longrightarrow> length (results (fst (search_baidu_api cfg w q lang m))) \<le> 10)
   \<and> map_of (call_params (google_call cfg q lang m)) ''num'' = Some (JNum (min m 10))
   \<and> call_json (baidu_call cfg q m tok) = Some (JObj [(''query'', JStr q), (''num'', JNum (min m 10))])
   \<and> (1 \<le> m \<longrightarrow>
        fst (search_free_api cfg w q lang m) = search_fallback q lang m (today w)
        \<or> (\<exists>txt kvs topics.
              net w (free_call cfg q) = Reply 200 txt (Some (JObj kvs))
              \<and> results (fst (search_free_api cfg w q lang m))
                  = free_abstract lang (today w) kvs @ topics
              \<and> length (free_abstract lang (today w) kvs) \<le> 1
              \<and> length topics \<le> nat (m - 1)
              \<and> list_all (\<lambda>r. source r = ''duckduckgo'' \<and> credibility_score r = 0.7) topics))
   \<and> (fst (search_google_api cfg w q lang m) = search_fallback q lang m (today w)
      \<or> length (results (fst (search_google_api cfg w q lang m)))
          = served_items ''items'' (net w (google_call cfg q lang m)))
   \<and> (fst (search_baidu_api cfg w q lang m) = search_fallback q lang m (today w)
      \<or> (\<exists>used. length (results (fst (search_baidu_api cfg w q lang m)))
            = served_items ''result'' (net w (baidu_call cfg q m used))))"
proof -
  have g: "served_items ''items'' (net w (google_call cfg q lang m)) \<le> 10
      \<longrightarrow> length (results (fst (search_google_api cfg w q lang m))) \<le> 10"
    using google_bound by blast
  have b: "(\<forall>tok. served_items ''result'' (net w (baidu_call cfg q m tok)) \<le> 10)
      \<longrightarrow> length (results (fst (search_baidu_api cfg w q lang m))) \<le> 10"
    using baidu_bound by blast
  have n: "map_of (call_params (google_call cfg q lang m)) ''num'' = Some (JNum (min m 10))"
    by (simp add: google_call_def)
  have j: "call_json (baidu_call cfg q m tok)
      = Some (JObj [(''query'', JStr q), (''num'', JNum (min m 10))])"
    by (simp add: baidu_call_def)
  have f: "fst (search_free_api cfg w q lang m) = search_fallback q lang m (today w)
        \<or> (\<exists>txt kvs topics.
              net w (free_call cfg q) = Reply 200 txt (Some (JObj kvs))
              \<and> results (fst (search_free_api cfg w q lang m))
                  = free_abstract lang (today w) kvs @ topics
              \<and> length (free_abstract lang (today w) kvs) \<le> 1
              \<and> length topics \<le> nat (m - 1)
              \<and> list_all (\<lambda>r. source r = ''duckduckgo'' \<and> credibility_score r = 0.7) topics)"
    if m: "1 \<le> m"
  proof (cases "fst (search_free_api cfg w q lang m) = search_fallback q lang m (today w)")
    case True
    then show ?thesis by blast
  next
    case False
    with free_api_paths [of cfg w q lang m] obtain body_text data recs where
      r: "net w (free_call cfg q) = Reply 200 body_text (Some data)"
      and fr: "free_results lang m (today w) data = Some recs"
      and rs: "results (fst (search_free_api cfg w q lang m)) = recs"
      by blast
    from free_results_shape [OF m fr] obtain kvs topics where
      "data = JObj kvs" "recs = free_abstract lang (today w) kvs @ topics"
      "length topics \<le> nat (m - 1)"
      "list_all (\<lambda>r. source r = ''duckduckgo'' \<and> credibility_score r = 0.7) topics"
      by blast
    with r rs free_abstract_length [of lang "today w" kvs] show ?thesis by blast
  qed
  from g b n j f google_one_per_item [of cfg w q lang m] baidu_one_per_item [of cfg w q lang m]
  show ?thesis by blast
qed

lemma served_three:
  "served_items ''items'' (net (world_reply three_items) (google_call cfg_google ''q'' ''en'' 50)) = 3"
  by (simp add: served_items_def world_reply_def three_items_def reply_items_def dict_get_def)

lemma served_one:
  "served_items ''result'' (net (world_reply token_and_results) (baidu_call cfg_baidu ''q'' 50 tok)) = 1"
  by (simp add: served_items_def world_reply_def token_and_results_def reply_items_def dict_get_def)

lemma free_not_fallback:
  "fst (search_free_api cfg_rapid (world_reply two_topics) ''q'' ''en'' 3)
     \<noteq> search_fallback ''q'' ''en'' 3 (today (world_reply two_topics))"
  by (simp add: search_free_api_def cfg_rapid_def world_reply_def two_topics_def
      free_results_def dict_get_def py_slice_to_def free_topic_def topic_title_def
      free_abstract_def search_fallback_def)

theorem clamping_witness:
  "served_items ''items'' (net (world_reply three_items) (google_call cfg_google ''q'' ''en'' 50))
       \<le> 10
   \<and> length (results (fst (search_google_api cfg_google (world_reply three_items) ''q'' ''en'' 50)))
       \<le> 10
   \<and> (\<forall>tok. served_items ''result''
         (net (world_reply token_and_results) (baidu_call cfg_baidu ''q'' 50 tok)) \<le> 10)
   \<and> length (results (fst (search_baidu_api cfg_baidu (world_reply token_and_results)
         ''q'' ''zh'' 50))) \<le> 10
   \<and> (1::int) \<le> 3
   \<and> fst (search_free_api cfg_rapid (world_reply two_topics) ''q'' ''en'' 3)
       \<noteq> search_fallback ''q'' ''en'' 3 (today (world_reply two_topics))
   \<and> length (results (fst (search_free_api cfg_rapid (world_reply two_topics) ''q'' ''en'' 3)))
       \<le> 3"
proof -
  have g: "served_items ''items''
      (net (world_reply three_items) (google_call cfg_google ''q'' ''en'' 50)) \<le> 10"
    by (simp add: served_three)
  have b: "\<forall>tok. served_items ''result''
      (net (world_reply token_and_results) (baidu_call cfg_baidu ''q'' 50 tok)) \<le> 10"
    by (simp add: served_one)
  have m: "(1::int) \<le> 3" by simp
  from g clamping [of "world_reply three_items" cfg_google "''q''" "''en''" 50]
  have g': "length (results (fst (search_google_api cfg_google (world_reply three_items)
      ''q'' ''en'' 50))) \<le> 10"
    by blast
  from b clamping [of "world_reply token_and_results" cfg_baidu "''q''" "''zh''" 50]
  have b': "length (results (fst (search_baidu_api cfg_baidu (world_reply token_and_results)
      ''q'' ''zh'' 50))) \<le> 10"
    by blast
  from m free_not_fallback clamping [of "world_reply two_topics" cfg_rapid "''q''" "''en''" 3]
  obtain kvs topics where
    "results (fst (search_free_api cfg_rapid (world_reply two_topics) ''q'' ''en'' 3))
       = free_abstract ''en'' (today (world_reply two_topics)) kvs @ topics"
    "length (free_abstract ''en'' (today (world_reply two_topics)) kvs) \<le> 1"
    "length topics \<le> nat (3 - 1)"
    by blast
  then have f': "length (results (fst (search_free_api cfg_rapid (world_reply two_topics)
      ''q'' ''en'' 3))) \<le> 3"
    by simp
  from g g' b b' m free_not_fallback f' show ?thesis by blast
qed

text \<open>
  The claim as stated fails twice. A reply of eleven items to a request for
  \<open>max_results = 50\<close> gives eleven records. And at \<open>max_results = 0\<close> the slice
  \<^verbatim>\<open>[:max_results-1]\<close> is \<^verbatim>\<open>[:-1]\<close>, all topics but the last: two topics give one record,
  more than \<open>max_results - 1\<close> plus one.
\<close>

theorem clamping_counterexample:
  "\<not> length (results (fst (search_google_api cfg_google (world_reply eleven_items) ''q'' ''en'' 50)))
       \<le> 10
   \<and> \<not> int (length (results (fst (search_free_api cfg_rapid (world_reply two_topics) ''q'' ''en'' 0))))
       \<le> (0 - 1) + 1"
proof -
  have "length (results (fst (search_google_api cfg_google (world_reply eleven_items) ''q'' ''en'' 50)))
      = 11"
    by (simp add: search_google_api_def cfg_google_def world_reply_def eleven_items_def str_or_def
        google_results_def reply_items_def dict_get_def google_item_def eval_nat_numeral)
  moreover have
    "length (results (fst (search_free_api cfg_rapid (world_reply two_topics) ''q'' ''en'' 0))) = 1"
    by (simp add: search_free_api_def cfg_rapid_def world_reply_def two_topics_def
        free_results_def dict_get_def py_slice_to_def free_topic_def topic_title_def
        free_abstract_def)
  ultimately show ?thesis by simp
qed

subsection \<open>The echoed query and the cache key\<close>

lemma perform_search_echo_on_miss:
  "fst (get_from_cache cfg (time_lookup w) c (cache_key cfg q lang m)) = None \<Longrightarrow>
     query (fst (perform_search cfg w c q lang srcs m)) = q"
  using envelope_dispatch [of q cfg w lang m] by (auto simp: perform_search_eq envelope_def)

lemma str_int_10: "str_int 10 = ''10''"
  by code_simp

text \<open>
  Claim C7 does not hold of the code. The cache key joins its four parts with colons, so
  two requests whose parts contain colons can share a key: the queries \<open>a:b\<close> with language
  \<open>c\<close> and \<open>a\<close> with language \<open>b:c\<close>. The second request, made while the entry of the
  first is fresh, is answered from the cache with the first one's envelope, whose query
  field is \<open>a:b\<close>.
\<close>

theorem cache_key_collision:
  "req_query request_a_bc = Some ''a''
   \<and> cache_key cfg_free ''a:b'' ''c'' 10 = cache_key cfg_free ''a'' ''b:c'' 10
   \<and> fst (api_search_endpoint cfg_free world_down
         (session_cache [Endpoint cfg_free world_down request_ab_c]) request_a_bc)
     = Inr (search_fallback ''a:b'' ''c'' 10 ''2025-04-14'')
   \<and> query (search_fallback ''a:b'' ''c'' 10 ''2025-04-14'') = ''a:b''"
  by (simp add: session_cache_def api_search_endpoint_def request_ab_c_def request_a_bc_def
      Let_def perform_search_any_int perform_search_eq get_from_cache_def dispatch_def
      search_free_api_def cfg_free_def world_down_def cache_key_def str_int_10
      search_fallback_def round_double_zero)

subsection \<open>Timeouts of the outbound calls\<close>

lemma call_timeouts:
  "call_timeout (free_call cfg q) = Some (timeout cfg)
   \<and> call_timeout (google_call cfg q lang m) = Some (timeout cfg)
   \<and> call_timeout (baidu_call cfg q m tok) = Some (timeout cfg)
   \<and> call_timeout (baidu_token_call cfg) = None"
  by (simp add: free_call_def google_call_def baidu_call_def baidu_token_call_def)

text \<open>
  Claim C8 does not hold of the code. The generic call, the commercial call and the
  regional search call carry the configured timeout; the regional token request is
  \<^verbatim>\<open>requests.post(token_url)\<close> and carries none. A regional search with credentials makes
  two calls, the first without a timeout.
\<close>

theorem baidu_token_call_without_timeout:
  "map call_timeout (http_calls (snd (snd (api_search_endpoint cfg_baidu
      (world_reply token_and_results) Map.empty request_climate))))
     = [None, Some 10]"
  by (simp add: api_search_endpoint_def request_climate_def Let_def perform_search_any_int
      perform_search_eq get_from_cache_def dispatch_def search_baidu_api_def baidu_search_def
      cfg_baidu_def world_reply_def token_and_results_def str_or_def baidu_results_def
      reply_items_def dict_get_def baidu_item_def baidu_token_call_def baidu_call_def)

end
